theory Spec2Isabelle
  imports Complex_Main
begin

section \<open>VoteX: the identity-gated voting state machine of script.js\<close>

text \<open>
  The theory embeds the state object of \<^verbatim>\<open>script.js\<close> and the handlers that
  mutate it, each as a function from the state before to the state after.

  Conventions of the embedding.
  \<^item> A JavaScript object used as a dictionary (\<^verbatim>\<open>state.users\<close>,
    \<^verbatim>\<open>state.votes\<close>, \<^verbatim>\<open>state.userVotes\<close>, \<^verbatim>\<open>state.faceEnrollments\<close>) is the
    map of its own properties; its prototype is \<^verbatim>\<open>Object.prototype\<close>. A read
    \<^verbatim>\<open>obj[k]\<close> follows the prototype chain (\<open>getProp\<close>), a write \<^verbatim>\<open>obj[k] = v\<close>
    goes through \<open>setProp\<close>, and \<^verbatim>\<open>Object.keys\<close>, \<^verbatim>\<open>Object.values\<close> and
    \<^verbatim>\<open>delete\<close> see own properties only.
  \<^item> A string is a list of code units below 256; \<^verbatim>\<open>length\<close> is the number of
    code units, as \<^verbatim>\<open>String.length\<close> is.
  \<^item> A vote count is an integer-valued JavaScript number, held as an \<^typ>\<open>int\<close>;
    \<^verbatim>\<open>+ 1\<close> rounds its result to a double (\<open>toDouble\<close>). A Tally entry can also hold
    a value that is no number (\<open>NonNumber\<close>): a function read through the prototype, or
    the string that \<^verbatim>\<open>+ 1\<close> makes of it.
  \<^item> A settings flag is the truthiness of the property, the only thing the code reads
    of it.
  \<^item> Rendering, toasts and the DOM are left out; what a handler reports (its toast or
    error text) is the error value it returns. \<^verbatim>\<open>saveAll\<close> writes
    \<^verbatim>\<open>localStorage\<close> after the state has been changed; only the import handler
    catches what it or a render call throws, and there it is an input of the model.
  \<^item> The WebAuthn credentials (\<^verbatim>\<open>state.biometrics\<close>) with their two handlers,
    \<^verbatim>\<open>sortByVotes\<close> and \<^verbatim>\<open>modelsLoaded\<close> are not part of the record: the
    handlers below neither read nor write them.
\<close>

subsection \<open>Strings: trim and the user name pattern\<close>

text \<open>
  \<^verbatim>\<open>String.prototype.trim\<close> strips white space and line terminators from both ends.
  Below 256 these are the code units 9 to 13, 32 and 160.
\<close>

definition is_js_space :: "char \<Rightarrow> bool" where
  "is_js_space c = ((of_char c :: nat) \<in> {9, 10, 11, 12, 13, 32, 160})"

definition trim :: "string \<Rightarrow> string" where
  "trim s = rev (dropWhile is_js_space (rev (dropWhile is_js_space s)))"

text \<open>The character class \<^verbatim>\<open>[A-Za-z0-9_]\<close> and the test \<^verbatim>\<open>/^[A-Za-z0-9_]+$/.test(user)\<close>.\<close>

definition is_word_char :: "char \<Rightarrow> bool" where
  "is_word_char c =
     (let n = (of_char c :: nat)
      in (65 \<le> n \<and> n \<le> 90) \<or> (97 \<le> n \<and> n \<le> 122) \<or> (48 \<le> n \<and> n \<le> 57) \<or> n = 95)"

definition username_pattern :: "string \<Rightarrow> bool" where
  "username_pattern u = (u \<noteq> [] \<and> list_all is_word_char u)"

subsection \<open>Objects as dictionaries\<close>

text \<open>
  The property names of \<^verbatim>\<open>Object.prototype\<close> (ECMAScript, Annex B included). All but
  one are methods; \<^verbatim>\<open>__proto__\<close> is an accessor whose getter returns the
  prototype object and whose setter ignores a value that is neither an object nor
  \<^verbatim>\<open>null\<close>.
\<close>

definition objectPrototypeNames :: "string list" where
  "objectPrototypeNames =
     [''constructor'', ''__defineGetter__'', ''__defineSetter__'', ''hasOwnProperty'',
      ''__lookupGetter__'', ''__lookupSetter__'', ''isPrototypeOf'', ''propertyIsEnumerable'',
      ''toString'', ''valueOf'', ''__proto__'', ''toLocaleString'']"

text \<open>
  What \<^verbatim>\<open>obj[k]\<close> evaluates to: the own property, or a member of
  \<^verbatim>\<open>Object.prototype\<close> (a function, or the prototype object itself), or
  \<^verbatim>\<open>undefined\<close>.
\<close>

datatype 'v lookup = Own 'v | Inherited | Undefined

definition getProp :: "(string \<rightharpoonup> 'v) \<Rightarrow> string \<Rightarrow> 'v lookup" where
  "getProp obj k =
     (case obj k of
        Some v \<Rightarrow> Own v
      | None \<Rightarrow> if k \<in> set objectPrototypeNames then Inherited else Undefined)"

text \<open>
  \<^verbatim>\<open>obj[k] = v\<close>. An own property is overwritten. Without one, the key
  \<^verbatim>\<open>__proto__\<close> reaches the setter of \<^verbatim>\<open>Object.prototype\<close>: a string, number
  or boolean is ignored and an object becomes the prototype; in neither case does the
  object get an own property. (The objects the script assigns there are
  \<^verbatim>\<open>Object.prototype\<close> itself, in the add-option handler, which changes nothing,
  and the array of a face descriptor, on an object that is never read by key.) Every
  other key gets an own property, which shadows an inherited method.
\<close>

definition setProp :: "(string \<rightharpoonup> 'v) \<Rightarrow> string \<Rightarrow> 'v \<Rightarrow> (string \<rightharpoonup> 'v)" where
  "setProp obj k v = (if obj k = None \<and> k = ''__proto__'' then obj else obj(k \<mapsto> v))"

subsection \<open>Numbers\<close>

text \<open>
  \<open>toDouble z\<close> is the double nearest to the integer \<open>z\<close>, ties to the even
  significand: \<open>z\<close> itself up to \<open>2^53\<close> in absolute value, and beyond that a
  multiple of the power of two that leaves a significand of 53 bits.
\<close>

function shiftCount :: "nat \<Rightarrow> nat" where
  "shiftCount a = (if a < 9007199254740992 then 0 else Suc (shiftCount (a div 2)))"
  by pat_completeness auto
termination
  by (relation "measure id") auto

declare shiftCount.simps [simp del]

definition toDouble :: "int \<Rightarrow> int" where
  "toDouble z =
     (let a = nat \<bar>z\<bar>;
          u = 2 ^ shiftCount a;
          q = a div u;
          r = a mod u;
          m = (if 2 * r < u \<or> (2 * r = u \<and> even q) then q else q + 1)
      in sgn z * int (m * u))"

text \<open>A Tally entry: a count, or a value that is no number.\<close>

datatype tally = Count int | NonNumber

text \<open>
  \<open>keepOrZero v\<close> is \<^verbatim>\<open>v || 0\<close>: zero and \<^verbatim>\<open>undefined\<close> give 0, every other
  value is truthy and kept (a function and the prototype object are truthy, and so is
  the non-empty string \<^verbatim>\<open>+ 1\<close> makes of them). \<open>addOne v\<close> is \<^verbatim>\<open>v + 1\<close>:
  addition on a number, string concatenation on anything else.
\<close>

definition keepOrZero :: "tally lookup \<Rightarrow> tally" where
  "keepOrZero v =
     (case v of
        Own (Count n) \<Rightarrow> (if n = 0 then Count 0 else Count n)
      | Own NonNumber \<Rightarrow> NonNumber
      | Inherited \<Rightarrow> NonNumber
      | Undefined \<Rightarrow> Count 0)"

definition addOne :: "tally \<Rightarrow> tally" where
  "addOne v = (case v of Count n \<Rightarrow> Count (toDouble (n + 1)) | NonNumber \<Rightarrow> NonNumber)"

subsection \<open>The state\<close>

record settings =
  votingOpen :: bool
  showResultsToUsers :: bool
  allowMultipleVotes :: bool
  requireFaceCheck :: bool

text \<open>\<^verbatim>\<open>defaults.settings\<close> as the script declares it.\<close>

definition builtin_settings :: settings where
  "builtin_settings =
     \<lparr>votingOpen = True, showResultsToUsers = True, allowMultipleVotes = False,
      requireFaceCheck = True\<rparr>"

type_synonym descriptor = "real list"

text \<open>
  The record holds the fields of the \<^verbatim>\<open>state\<close> object and, beside them, the two
  module-level objects the handlers also read and write: \<^verbatim>\<open>tempFaceDescriptor\<close>
  and \<^verbatim>\<open>defaults.settings\<close>. On a first run \<^verbatim>\<open>ls.get("va_settings",
  defaults.settings)\<close> returns the default object itself, and the import handler
  assigns it again when the document has no settings, so \<^verbatim>\<open>state.settings\<close> and
  \<^verbatim>\<open>defaults.settings\<close> can be one object: \<open>settingsShared\<close> records that, and a
  write through \<^verbatim>\<open>state.settings\<close> then changes both.
\<close>

record state =
  users :: "string \<rightharpoonup> string"
  votes :: "string \<rightharpoonup> tally"
  options :: "string list"
  userVotes :: "string \<rightharpoonup> string"
  settings :: settings
  user :: "string option"
  admin :: bool
  faceEnrollments :: "string \<rightharpoonup> bool"
  faceDescriptors :: "string \<rightharpoonup> descriptor"
  tempFaceDescriptor :: "descriptor option"
  defaultSettings :: settings
  settingsShared :: bool

text \<open>What a handler reports, named as the specification names the errors.\<close>

datatype error =
    Unauthenticated       \<comment> \<open>"Please login first."\<close>
  | VotingClosed          \<comment> \<open>"Voting is currently closed."\<close>
  | AlreadyVoted          \<comment> \<open>"You have already voted!"\<close>
  | UnknownOption         \<comment> \<open>"Invalid option."\<close>
  | VerificationFailure   \<comment> \<open>the face verification ended without calling back\<close>
  | NoFaceScan            \<comment> \<open>"Please scan your face first."\<close>
  | InvalidUsername       \<comment> \<open>"Username must be at least 3 characters.", "Only letters, numbers, and underscore allowed."\<close>
  | WeakPassword          \<comment> \<open>"Password must be at least 6 characters."\<close>
  | DuplicateUsername     \<comment> \<open>"Username already exists."\<close>
  | ScanFailed            \<comment> \<open>"Face scan failed. Try again."\<close>
  | DuplicateIdentity     \<comment> \<open>"Identity already exists in VoteX."\<close>
  | InvalidCredentials    \<comment> \<open>"Invalid username or password.", "Invalid admin credentials."\<close>
  | MissingUsername       \<comment> \<open>"Please enter your username first."\<close>
  | FaceLoginDisabled     \<comment> \<open>"Face login not enabled for this user."\<close>
  | DuplicateOption       \<comment> \<open>"Option already exists."\<close>
  | MalformedDocument     \<comment> \<open>"Invalid JSON file."\<close>

subsection \<open>JavaScript truthiness\<close>

text \<open>
  \<open>truthy\<close> is the truthiness of \<^verbatim>\<open>obj[k]\<close> on an object of strings: the empty
  string and \<^verbatim>\<open>undefined\<close> are falsy, an inherited member is truthy.
  \<open>truthyFlag\<close> is the same on an object of booleans. \<open>loggedIn\<close> is the truthiness
  of \<^verbatim>\<open>state.user\<close>, which is \<^verbatim>\<open>null\<close> or a string. \<open>userKey\<close> is the
  property key that \<^verbatim>\<open>state.user\<close> is converted to: \<^verbatim>\<open>null\<close> becomes the
  key \<^verbatim>\<open>"null"\<close>.
\<close>

definition truthy :: "string lookup \<Rightarrow> bool" where
  "truthy v = (case v of Own s \<Rightarrow> s \<noteq> [] | Inherited \<Rightarrow> True | Undefined \<Rightarrow> False)"

definition truthyFlag :: "bool lookup \<Rightarrow> bool" where
  "truthyFlag v = (case v of Own b \<Rightarrow> b | Inherited \<Rightarrow> True | Undefined \<Rightarrow> False)"

definition loggedIn :: "string option \<Rightarrow> bool" where
  "loggedIn v = (case v of None \<Rightarrow> False | Some s \<Rightarrow> s \<noteq> [])"

definition userKey :: "string option \<Rightarrow> string" where
  "userKey v = (case v of None \<Rightarrow> ''null'' | Some u \<Rightarrow> u)"

subsection \<open>Voting\<close>

definition hasUserVoted :: "state \<Rightarrow> string \<Rightarrow> bool" where
  "hasUserVoted st u = truthy (getProp (userVotes st) u)"

definition finalizeVote :: "state \<Rightarrow> string \<Rightarrow> state" where
  "finalizeVote st opt =
     (let st1 = st\<lparr>votes := setProp (votes st) opt (addOne (keepOrZero (getProp (votes st) opt)))\<rparr>
      in if \<not> allowMultipleVotes (settings st1)
         then st1\<lparr>userVotes := setProp (userVotes st1) (userKey (user st1)) opt\<rparr>
         else st1)"

text \<open>
  \<^verbatim>\<open>vote(option)\<close> either reports an error, or starts the face verification with
  \<^verbatim>\<open>finalizeVote(option)\<close> as its callback, or calls \<^verbatim>\<open>finalizeVote\<close> at once.
\<close>

datatype vote_result = Toast error | FaceVerification string | Voted state

definition vote :: "state \<Rightarrow> string \<Rightarrow> vote_result" where
  "vote st opt =
     (if \<not> loggedIn (user st) then Toast Unauthenticated
      else if \<not> votingOpen (settings st) then Toast VotingClosed
      else if \<not> allowMultipleVotes (settings st) \<and> hasUserVoted st (userKey (user st))
        then Toast AlreadyVoted
      else if opt \<notin> set (options st) then Toast UnknownOption
      else if requireFaceCheck (settings st) then FaceVerification opt
      else Voted (finalizeVote st opt))"

text \<open>
  The specification's \<open>castVote\<close> is \<^verbatim>\<open>vote\<close> run together with the verification
  it may start: \<open>faceDetected\<close> says whether \<^verbatim>\<open>startFaceVerification\<close> reaches its
  callback (it does not when the camera is refused or the dialog is closed first).
  No other handler runs in between.
\<close>

definition castVote :: "state \<Rightarrow> string \<Rightarrow> bool \<Rightarrow> error + state" where
  "castVote st opt faceDetected =
     (case vote st opt of
        Toast e \<Rightarrow> Inl e
      | FaceVerification opt' \<Rightarrow>
          if faceDetected then Inr (finalizeVote st opt') else Inl VerificationFailure
      | Voted st' \<Rightarrow> Inr st')"

subsection \<open>Registration and login\<close>

text \<open>
  The callback that \<^verbatim>\<open>startRegistrationScan\<close> hands to the face verification.
  \<open>distance\<close> is \<^verbatim>\<open>faceapi.euclideanDistance\<close>, a function of the face-api library
  and a parameter here; the threshold is the constant of the script.
  \<^verbatim>\<open>Object.values(state.faceDescriptors)\<close> are the own properties' values.
\<close>

definition isDuplicate :: "(descriptor \<Rightarrow> descriptor \<Rightarrow> real) \<Rightarrow> state \<Rightarrow> descriptor \<Rightarrow> bool" where
  "isDuplicate distance st d = (\<exists>stored \<in> ran (faceDescriptors st). distance d stored < 0.55)"

definition registrationScan ::
  "(descriptor \<Rightarrow> descriptor \<Rightarrow> real) \<Rightarrow> state \<Rightarrow> descriptor option \<Rightarrow> error + state" where
  "registrationScan distance st scanned =
     (case scanned of
        None \<Rightarrow> Inl ScanFailed
      | Some d \<Rightarrow>
          if isDuplicate distance st d then Inl DuplicateIdentity
          else Inr (st\<lparr>tempFaceDescriptor := Some d\<rparr>))"

text \<open>
  \<^verbatim>\<open>register()\<close> reads the two form fields; only the user name is trimmed. The
  checks stand in the order of the script. \<^verbatim>\<open>tempFaceDescriptor\<close> is cleared at the
  end of \<^verbatim>\<open>runSetups\<close>, which the success path runs at once when the box for
  the WebAuthn enrollment is not ticked.
\<close>

definition register :: "state \<Rightarrow> string \<Rightarrow> string \<Rightarrow> error + state" where
  "register st rawUser pass =
     (let u = trim rawUser
      in case tempFaceDescriptor st of
           None \<Rightarrow> Inl NoFaceScan
         | Some d \<Rightarrow>
             if length u < 3 then Inl InvalidUsername
             else if length pass < 6 then Inl WeakPassword
             else if \<not> username_pattern u then Inl InvalidUsername
             else if truthy (getProp (users st) u) then Inl DuplicateUsername
             else Inr (st\<lparr>users := setProp (users st) u pass,
                           faceEnrollments := setProp (faceEnrollments st) u True,
                           faceDescriptors := setProp (faceDescriptors st) u d,
                           user := Some u,
                           tempFaceDescriptor := None\<rparr>))"

text \<open>
  \<^verbatim>\<open>login()\<close> trims both fields and tests
  \<^verbatim>\<open>state.users[user] && state.users[user] === pass\<close>; an inherited member is
  truthy and never equal to a string.
\<close>

definition login :: "state \<Rightarrow> string \<Rightarrow> string \<Rightarrow> error + state" where
  "login st rawUser rawPass =
     (let u = trim rawUser; p = trim rawPass
      in if truthy (getProp (users st) u) \<and> getProp (users st) u = Own p
         then Inr (st\<lparr>user := Some u\<rparr>)
         else Inl InvalidCredentials)"

text \<open>
  \<^verbatim>\<open>loginWithFace()\<close> checks the user name and its enrollment and then starts the
  face verification; the result \<open>Inr u\<close> is the user name its callback will log in.
  \<open>faceLogin\<close> is that callback.
\<close>

definition loginWithFace :: "state \<Rightarrow> string \<Rightarrow> error + string" where
  "loginWithFace st rawUser =
     (let u = trim rawUser
      in if u = [] then Inl MissingUsername
         else if \<not> truthyFlag (getProp (faceEnrollments st) u) then Inl FaceLoginDisabled
         else Inr u)"

definition faceLogin :: "state \<Rightarrow> string \<Rightarrow> state" where
  "faceLogin st u = st\<lparr>user := Some u\<rparr>"

definition logoutUser :: "state \<Rightarrow> state" where
  "logoutUser st = st\<lparr>user := None\<rparr>"

definition adminLogin :: "state \<Rightarrow> string \<Rightarrow> string \<Rightarrow> error + state" where
  "adminLogin st rawUser rawPass =
     (if trim rawUser = ''admin'' \<and> trim rawPass = ''admin123''
      then Inr (st\<lparr>admin := True\<rparr>)
      else Inl InvalidCredentials)"

definition logoutAdmin :: "state \<Rightarrow> state" where
  "logoutAdmin st = st\<lparr>admin := False\<rparr>"

subsection \<open>The admin handlers\<close>

text \<open>
  A handler that can return without reporting anything has an \<open>outcome\<close>:
  \<open>Ignored\<close> is the silent \<^verbatim>\<open>return\<close> (an empty input, a cancelled dialog).
\<close>

datatype outcome = Done | Ignored | Failed error

text \<open>
  The add-option handler: \<^verbatim>\<open>state.options.push(name); state.votes[name] =
  state.votes[name] || 0\<close>.
\<close>

definition addOption :: "state \<Rightarrow> string \<Rightarrow> outcome \<times> state" where
  "addOption st raw =
     (let name = trim raw
      in if name = [] then (Ignored, st)
         else if name \<in> set (options st) then (Failed DuplicateOption, st)
         else (Done, st\<lparr>options := options st @ [name],
                         votes := setProp (votes st) name (keepOrZero (getProp (votes st) name))\<rparr>))"

text \<open>
  The click handler of an option chip: "Remove option and its votes". \<^verbatim>\<open>delete\<close>
  and the loop over \<^verbatim>\<open>Object.keys(state.userVotes)\<close> touch own properties.
\<close>

definition removeOption :: "state \<Rightarrow> string \<Rightarrow> state" where
  "removeOption st opt =
     st\<lparr>options := filter (\<lambda>o'. o' \<noteq> opt) (options st),
        votes := (votes st)(opt := None),
        userVotes := (\<lambda>u. if userVotes st u = Some opt then None else userVotes st u)\<rparr>"

definition resetVotes :: "state \<Rightarrow> bool \<Rightarrow> state" where
  "resetVotes st confirmed =
     (if confirmed
      then st\<lparr>votes := (\<lambda>k. map_option (\<lambda>_. Count 0) (votes st k)), userVotes := Map.empty\<rparr>
      else st)"

text \<open>
  A toggle writes one property of the object \<^verbatim>\<open>state.settings\<close> points to; when
  that object is \<^verbatim>\<open>defaults.settings\<close>, the default changes with it.
\<close>

definition writeSettings :: "state \<Rightarrow> (settings \<Rightarrow> settings) \<Rightarrow> state" where
  "writeSettings st f =
     st\<lparr>settings := f (settings st),
        defaultSettings := (if settingsShared st then f (defaultSettings st) else defaultSettings st)\<rparr>"

definition toggleVoting :: "state \<Rightarrow> bool \<Rightarrow> state" where
  "toggleVoting st b = writeSettings st (\<lambda>s. s\<lparr>votingOpen := b\<rparr>)"

definition toggleResults :: "state \<Rightarrow> bool \<Rightarrow> state" where
  "toggleResults st b = writeSettings st (\<lambda>s. s\<lparr>showResultsToUsers := b\<rparr>)"

definition toggleFaceCheck :: "state \<Rightarrow> bool \<Rightarrow> state" where
  "toggleFaceCheck st b = writeSettings st (\<lambda>s. s\<lparr>requireFaceCheck := b\<rparr>)"

subsection \<open>Import\<close>

text \<open>
  The import handler sees the text of the chosen file through \<^verbatim>\<open>JSON.parse\<close>. A
  \<open>document\<close> is what the parse gives:
  \<^item> \<open>NotJson\<close>: the parse throws;
  \<^item> \<open>JsonNull\<close>: the value \<^verbatim>\<open>null\<close>;
  \<^item> \<open>JsonOther\<close>: a number, string, boolean or array, for example the file
    \<^verbatim>\<open>42\<close>: a value none of whose five properties is defined;
  \<^item> \<open>JsonObject d\<close>: an object whose five properties are missing, falsy, or of the
    type the export writes (objects of strings, an object of integer counts of fewer
    than 300 digits, an array of strings, an object of flags); a field of the \<open>snapshot\<close> \<open>d\<close> is \<open>None\<close>
    when the property is missing or falsy, which is when \<^verbatim>\<open>||\<close> takes the default;
  \<^item> \<open>JsonIllTyped\<close>: an object one of whose five properties holds a truthy value of
    another type, for example \<^verbatim>\<open>{"options": 5}\<close>.
  \<^verbatim>\<open>JSON.parse\<close> makes every key of an object an own property.
\<close>

record snapshot =
  docUsers :: "(string \<rightharpoonup> string) option"
  docVotes :: "(string \<rightharpoonup> int) option"
  docOptions :: "string list option"
  docUserVotes :: "(string \<rightharpoonup> string) option"
  docSettings :: "settings option"

datatype document = NotJson | JsonNull | JsonOther | JsonObject snapshot | JsonIllTyped

definition noFields :: snapshot where
  "noFields =
     \<lparr>docUsers = None, docVotes = None, docOptions = None, docUserVotes = None,
      docSettings = None\<rparr>"

text \<open>
  The five assignments of the handler. A count of the document is the integer its
  numeral denotes, which \<^verbatim>\<open>JSON.parse\<close> rounds to a double.
\<close>

definition replaceAll :: "state \<Rightarrow> snapshot \<Rightarrow> state" where
  "replaceAll st d =
     st\<lparr>users := (case docUsers d of None \<Rightarrow> Map.empty | Some m \<Rightarrow> m),
        votes := (case docVotes d of
                    None \<Rightarrow> Map.empty
                  | Some m \<Rightarrow> (\<lambda>k. map_option (\<lambda>n. Count (toDouble n)) (m k))),
        options := (case docOptions d of None \<Rightarrow> [] | Some l \<Rightarrow> l),
        userVotes := (case docUserVotes d of None \<Rightarrow> Map.empty | Some m \<Rightarrow> m),
        settings := (case docSettings d of None \<Rightarrow> defaultSettings st | Some s \<Rightarrow> s),
        settingsShared := (docSettings d = None)\<rparr>"

text \<open>
  What the state object holds after the handler: a state of this model, or, after the
  assignment of an ill-typed property, values that the record cannot hold.
\<close>

datatype memory = Typed state | Untyped

text \<open>
  \<open>confirmed\<close> is the answer to "Import will overwrite current data. Continue?",
  asked after the parse. Reading \<^verbatim>\<open>data.users\<close> of \<^verbatim>\<open>null\<close> throws inside the
  \<^verbatim>\<open>try\<close>, before any assignment. After the five assignments the handler calls
  \<^verbatim>\<open>saveAll\<close> and three render functions, still inside the \<^verbatim>\<open>try\<close>:
  \<open>completes\<close> says that none of them throws. (\<^verbatim>\<open>localStorage.setItem\<close> throws
  when the quota is exceeded; \<^verbatim>\<open>state.options.map\<close> and
  \<^verbatim>\<open>state.options.forEach\<close> throw on a value that is no array.) What they throw
  reaches the same \<^verbatim>\<open>catch\<close> as a parse error.
\<close>

fun importSnapshot :: "state \<Rightarrow> document \<Rightarrow> bool \<Rightarrow> bool \<Rightarrow> outcome \<times> memory" where
  "importSnapshot st NotJson confirmed completes = (Failed MalformedDocument, Typed st)"
| "importSnapshot st JsonNull confirmed completes =
     (if confirmed then (Failed MalformedDocument, Typed st) else (Ignored, Typed st))"
| "importSnapshot st JsonOther confirmed completes =
     (if \<not> confirmed then (Ignored, Typed st)
      else (if completes then Done else Failed MalformedDocument, Typed (replaceAll st noFields)))"
| "importSnapshot st (JsonObject d) confirmed completes =
     (if \<not> confirmed then (Ignored, Typed st)
      else (if completes then Done else Failed MalformedDocument, Typed (replaceAll st d)))"
| "importSnapshot st JsonIllTyped confirmed completes =
     (if \<not> confirmed then (Ignored, Typed st)
      else (if completes then Done else Failed MalformedDocument, Untyped))"

subsection \<open>The handlers as events\<close>

text \<open>
  The page runs one handler at a time, in any order. A \<open>system\<close> is the state together
  with the face verifications that have been started and have not called back yet,
  each with its callback: \<^verbatim>\<open>finalizeVote(option)\<close> from \<^verbatim>\<open>vote\<close>, the login of a
  user from \<^verbatim>\<open>loginWithFace\<close>, the duplicate check from
  \<^verbatim>\<open>startRegistrationScan\<close>. Two history variables count what the code does not
  store: \<open>casts\<close>, the calls of \<^verbatim>\<open>finalizeVote\<close> since the last reset, and
  \<open>discarded\<close>, the counts that option removals have deleted since then.
\<close>

datatype callback = FinalizeVote string | FaceLogin string | RegistrationScan

record system =
  app :: state
  pending :: "callback list"
  casts :: int
  discarded :: int

text \<open>
  \<open>FaceDetected i d\<close>: the \<open>i\<close>-th pending verification detects a face with
  descriptor \<open>d\<close> and calls back. \<open>FaceAborted i\<close>: it ends without calling back.
\<close>

datatype event =
    StartScan
  | Register string string
  | Login string string
  | LoginWithFace string
  | Logout
  | AdminLogin string string
  | AdminLogout
  | Vote string
  | FaceDetected nat descriptor
  | FaceAborted nat
  | AddOption string
  | RemoveOption string
  | ResetVotes bool
  | ToggleVoting bool
  | ToggleResults bool
  | ToggleFaceCheck bool

definition without :: "nat \<Rightarrow> 'a list \<Rightarrow> 'a list" where
  "without i xs = take i xs @ drop (Suc i) xs"

definition countOf :: "tally \<Rightarrow> int" where
  "countOf v = (case v of Count n \<Rightarrow> n | NonNumber \<Rightarrow> 0)"

text \<open>What a callback does when its verification detects a face.\<close>

fun callBack :: "(descriptor \<Rightarrow> descriptor \<Rightarrow> real) \<Rightarrow> system \<Rightarrow> callback \<Rightarrow> descriptor \<Rightarrow> system" where
  "callBack distance s (FinalizeVote opt) d =
     s\<lparr>app := finalizeVote (app s) opt, casts := casts s + 1\<rparr>"
| "callBack distance s (FaceLogin u) d = s\<lparr>app := faceLogin (app s) u\<rparr>"
| "callBack distance s RegistrationScan d =
     (case registrationScan distance (app s) (Some d) of
        Inl e \<Rightarrow> s
      | Inr st' \<Rightarrow> s\<lparr>app := st'\<rparr>)"

text \<open>A chip, and so \<open>RemoveOption\<close>, exists only for a current option.\<close>

fun step :: "(descriptor \<Rightarrow> descriptor \<Rightarrow> real) \<Rightarrow> system \<Rightarrow> event \<Rightarrow> system" where
  "step distance s StartScan = s\<lparr>pending := pending s @ [RegistrationScan]\<rparr>"
| "step distance s (Register u p) =
     (case register (app s) u p of Inl e \<Rightarrow> s | Inr st' \<Rightarrow> s\<lparr>app := st'\<rparr>)"
| "step distance s (Login u p) =
     (case login (app s) u p of Inl e \<Rightarrow> s | Inr st' \<Rightarrow> s\<lparr>app := st'\<rparr>)"
| "step distance s (LoginWithFace u) =
     (case loginWithFace (app s) u of
        Inl e \<Rightarrow> s
      | Inr name \<Rightarrow> s\<lparr>pending := pending s @ [FaceLogin name]\<rparr>)"
| "step distance s Logout = s\<lparr>app := logoutUser (app s)\<rparr>"
| "step distance s (AdminLogin u p) =
     (case adminLogin (app s) u p of Inl e \<Rightarrow> s | Inr st' \<Rightarrow> s\<lparr>app := st'\<rparr>)"
| "step distance s AdminLogout = s\<lparr>app := logoutAdmin (app s)\<rparr>"
| "step distance s (Vote opt) =
     (case vote (app s) opt of
        Toast e \<Rightarrow> s
      | FaceVerification opt' \<Rightarrow> s\<lparr>pending := pending s @ [FinalizeVote opt']\<rparr>
      | Voted st' \<Rightarrow> s\<lparr>app := st', casts := casts s + 1\<rparr>)"
| "step distance s (FaceDetected i d) =
     (if i < length (pending s)
      then callBack distance (s\<lparr>pending := without i (pending s)\<rparr>) (pending s ! i) d
      else s)"
| "step distance s (FaceAborted i) = s\<lparr>pending := without i (pending s)\<rparr>"
| "step distance s (AddOption raw) = s\<lparr>app := snd (addOption (app s) raw)\<rparr>"
| "step distance s (RemoveOption opt) =
     (if opt \<in> set (options (app s))
      then s\<lparr>app := removeOption (app s) opt,
             discarded := discarded s + (case votes (app s) opt of None \<Rightarrow> 0 | Some v \<Rightarrow> countOf v)\<rparr>
      else s)"
| "step distance s (ResetVotes confirmed) =
     (if confirmed
      then s\<lparr>app := resetVotes (app s) True, casts := 0, discarded := 0\<rparr>
      else s)"
| "step distance s (ToggleVoting b) = s\<lparr>app := toggleVoting (app s) b\<rparr>"
| "step distance s (ToggleResults b) = s\<lparr>app := toggleResults (app s) b\<rparr>"
| "step distance s (ToggleFaceCheck b) = s\<lparr>app := toggleFaceCheck (app s) b\<rparr>"

definition run :: "(descriptor \<Rightarrow> descriptor \<Rightarrow> real) \<Rightarrow> system \<Rightarrow> event list \<Rightarrow> system" where
  "run distance s evs = foldl (step distance) s evs"

text \<open>
  The sum of all Tally values, over the own properties of \<^verbatim>\<open>state.votes\<close> as
  \<^verbatim>\<open>Object.values\<close> lists them; an entry that is no number adds nothing.
\<close>

definition sumValues :: "('a \<rightharpoonup> tally) \<Rightarrow> int" where
  "sumValues m = (\<Sum>k \<in> dom m. countOf (the (m k)))"

definition tallySum :: "state \<Rightarrow> int" where
  "tallySum st = sumValues (votes st)"

text \<open>
  The accounting that a run keeps: finitely many Tally entries, all of them numbers,
  and their sum, together with the discarded counts, equal to the number of counted
  votes.
\<close>

definition tallyCounted :: "system \<Rightarrow> bool" where
  "tallyCounted s =
     (finite (dom (votes (app s))) \<and> NonNumber \<notin> ran (votes (app s))
      \<and> tallySum (app s) + discarded s = casts s)"

text \<open>
  \<open>countable st opt\<close>: \<^verbatim>\<open>finalizeVote(opt)\<close> meets a count below \<open>2^53\<close> in
  absolute value, or no entry and a name that \<^verbatim>\<open>Object.prototype\<close> does not have.
  \<open>plainStep\<close> asks that of the option of every vote an event counts, and of a name an
  event adds that \<^verbatim>\<open>Object.prototype\<close> does not have it or the Tally has it.
  \<open>plainRun\<close> asks it of every event of a run, in the state the event meets.
\<close>

definition countable :: "state \<Rightarrow> string \<Rightarrow> bool" where
  "countable st opt =
     (case votes st opt of
        Some (Count n) \<Rightarrow> \<bar>n\<bar> < 9007199254740992
      | Some NonNumber \<Rightarrow> False
      | None \<Rightarrow> opt \<notin> set objectPrototypeNames)"

fun plainStep :: "system \<Rightarrow> event \<Rightarrow> bool" where
  "plainStep s (Vote opt) =
     (case vote (app s) opt of Voted st' \<Rightarrow> countable (app s) opt | _ \<Rightarrow> True)"
| "plainStep s (FaceDetected i d) =
     (if i < length (pending s)
      then (case pending s ! i of FinalizeVote opt \<Rightarrow> countable (app s) opt | _ \<Rightarrow> True)
      else True)"
| "plainStep s (AddOption raw) =
     (trim raw \<in> set objectPrototypeNames \<longrightarrow> votes (app s) (trim raw) \<noteq> None)"
| "plainStep s e = True"

fun plainRun :: "(descriptor \<Rightarrow> descriptor \<Rightarrow> real) \<Rightarrow> system \<Rightarrow> event list \<Rightarrow> bool" where
  "plainRun distance s [] = True"
| "plainRun distance s (e # es) = (plainStep s e \<and> plainRun distance (step distance s e) es)"

text \<open>
  The state of a first run, with nothing in \<^verbatim>\<open>localStorage\<close>: every field is its
  default, \<^verbatim>\<open>initOptionsVotes\<close> has seeded the three default options with a zero
  count each, and nobody is logged in.
\<close>

definition firstRun :: state where
  "firstRun =
     \<lparr>users = Map.empty,
      votes = [''Option A'' \<mapsto> Count 0, ''Option B'' \<mapsto> Count 0, ''Option C'' \<mapsto> Count 0],
      options = [''Option A'', ''Option B'', ''Option C''],
      userVotes = Map.empty,
      settings = builtin_settings,
      user = None,
      admin = False,
      faceEnrollments = Map.empty,
      faceDescriptors = Map.empty,
      tempFaceDescriptor = None,
      defaultSettings = builtin_settings,
      settingsShared = True\<rparr>"

definition boot :: "state \<Rightarrow> system" where
  "boot st = \<lparr>app = st, pending = [], casts = 0, discarded = 0\<rparr>"

subsection \<open>Sequences of option edits\<close>

datatype option_edit = AddEdit string | RemoveEdit string

definition applyEdit :: "state \<Rightarrow> option_edit \<Rightarrow> state" where
  "applyEdit st e =
     (case e of AddEdit raw \<Rightarrow> snd (addOption st raw) | RemoveEdit opt \<Rightarrow> removeOption st opt)"

text \<open>The states after each call of a sequence, in order.\<close>

fun statesAfter :: "state \<Rightarrow> option_edit list \<Rightarrow> state list" where
  "statesAfter st [] = []"
| "statesAfter st (e # es) = applyEdit st e # statesAfter (applyEdit st e) es"

text \<open>\<^verbatim>\<open>Object.keys(state.votes)\<close> are the own keys.\<close>

definition tallyKeysAreOptions :: "state \<Rightarrow> bool" where
  "tallyKeysAreOptions st = (dom (votes st) = set (options st))"

subsection \<open>Concrete states and documents\<close>

text \<open>
  The first-run state after a visitor has scanned a face and registered as
  \<^verbatim>\<open>bob\<close> with the password \<^verbatim>\<open>secret1\<close>: \<^verbatim>\<open>register\<close> logs the new user in
  (lemma \<open>bob_registers\<close> below).
\<close>

definition bobLoggedIn :: state where
  "bobLoggedIn =
     firstRun\<lparr>users := [''bob'' \<mapsto> ''secret1''],
              faceEnrollments := [''bob'' \<mapsto> True],
              faceDescriptors := [''bob'' \<mapsto> [0]],
              user := Some ''bob''\<rparr>"

text \<open>The document \<^verbatim>\<open>{"users": {"bob": "secret1"}, "options": [""]}\<close>.\<close>

definition blankOptionDoc :: snapshot where
  "blankOptionDoc =
     \<lparr>docUsers = Some [''bob'' \<mapsto> ''secret1''], docVotes = None, docOptions = Some [''''],
      docUserVotes = None, docSettings = None\<rparr>"

text \<open>
  The state after \<^verbatim>\<open>bob\<close>, logged in, has imported that document (lemma
  \<open>blank_import\<close> below).
\<close>

definition blankImported :: state where
  "blankImported = replaceAll bobLoggedIn blankOptionDoc"

text \<open>The document \<^verbatim>\<open>{"votes": {"A": 2, "X": 5}, "options": ["A"]}\<close>.\<close>

definition staleTallyDoc :: snapshot where
  "staleTallyDoc =
     \<lparr>docUsers = None, docVotes = Some [''A'' \<mapsto> 2, ''X'' \<mapsto> 5], docOptions = Some [''A''],
      docUserVotes = None, docSettings = None\<rparr>"

definition staleImported :: state where
  "staleImported = replaceAll bobLoggedIn staleTallyDoc"

text \<open>\<open>bobLoggedIn\<close> after the admin has added the option \<^verbatim>\<open>__proto__\<close>.\<close>

definition protoAdded :: state where
  "protoAdded = snd (addOption bobLoggedIn ''__proto__'')"

text \<open>\<open>bobLoggedIn\<close> after the admin has added the option \<^verbatim>\<open>constructor\<close>.\<close>

definition constructorAdded :: state where
  "constructorAdded = snd (addOption bobLoggedIn ''constructor'')"

text \<open>
  The document \<^verbatim>\<open>{"votes": {"Option A": 9007199254740992}, "options": ["Option A"]}\<close>,
  whose count is \<open>2^53\<close>, and the state after \<^verbatim>\<open>bob\<close> has imported it.
\<close>

definition hugeTallyDoc :: snapshot where
  "hugeTallyDoc =
     \<lparr>docUsers = None, docVotes = Some [''Option A'' \<mapsto> 9007199254740992],
      docOptions = Some [''Option A''], docUserVotes = None, docSettings = None\<rparr>"

definition hugeImported :: state where
  "hugeImported = replaceAll bobLoggedIn hugeTallyDoc"

text \<open>
  The document \<^verbatim>\<open>{"votes": {"Option A": 1, "Option B": 0}, "options": ["Option A",
  "Option B"], "userVotes": {"constructor": "Option A"}}\<close>, and the state after it
  has been imported and the user \<^verbatim>\<open>constructor\<close> has logged in by face
  (lemma \<open>constructor_logs_in\<close> below).
\<close>

definition constructorDoc :: snapshot where
  "constructorDoc =
     \<lparr>docUsers = None,
      docVotes = Some [''Option A'' \<mapsto> 1, ''Option B'' \<mapsto> 0],
      docOptions = Some [''Option A'', ''Option B''],
      docUserVotes = Some [''constructor'' \<mapsto> ''Option A''],
      docSettings = None\<rparr>"

definition constructorVoted :: state where
  "constructorVoted = faceLogin (replaceAll bobLoggedIn constructorDoc) ''constructor''"

text \<open>
  The Euclidean distance of two descriptors of one length, to run the registration
  scan on: the scan itself takes the distance function as its parameter.
\<close>

definition euclid :: "descriptor \<Rightarrow> descriptor \<Rightarrow> real" where
  "euclid a b = sqrt (\<Sum>(x, y) \<leftarrow> zip a b. (x - y)\<^sup>2)"

section \<open>Properties\<close>

subsection \<open>Trimmed strings\<close>

lemma trim_bob: "trim ''bob'' = ''bob''"
  by (simp add: trim_def is_js_space_def)

lemma trim_alice: "trim ''alice'' = ''alice''"
  by (simp add: trim_def is_js_space_def)

lemma trim_secret1: "trim ''secret1'' = ''secret1''"
  by (simp add: trim_def is_js_space_def)

lemma trim_X: "trim ''X'' = ''X''"
  by (simp add: trim_def is_js_space_def)

lemma trim_proto: "trim ''__proto__'' = ''__proto__''"
  by (simp add: trim_def is_js_space_def)

lemma trim_constructor: "trim ''constructor'' = ''constructor''"
  by (simp add: trim_def is_js_space_def)

subsection \<open>Reading and writing a property\<close>

lemma proto_is_inherited: "''__proto__'' \<in> set objectPrototypeNames"
  by (simp add: objectPrototypeNames_def)

lemma getProp_own: "obj k = Some v \<Longrightarrow> getProp obj k = Own v"
  by (simp add: getProp_def)

lemma getProp_plain: "obj k = None \<Longrightarrow> k \<notin> set objectPrototypeNames \<Longrightarrow> getProp obj k = Undefined"
  by (simp add: getProp_def)

lemma setProp_plain: "k \<notin> set objectPrototypeNames \<Longrightarrow> setProp obj k v = obj(k \<mapsto> v)"
  using proto_is_inherited by (auto simp: setProp_def)

lemma setProp_own: "obj k \<noteq> None \<Longrightarrow> setProp obj k v = obj(k \<mapsto> v)"
  by (auto simp: setProp_def)

subsection \<open>Rounding to a double\<close>

lemma shiftCount_small: "a < 9007199254740992 \<Longrightarrow> shiftCount a = 0"
  by (subst shiftCount.simps) simp

lemma shiftCount_next:
  "\<not> a < 9007199254740992 \<Longrightarrow> shiftCount a = Suc (shiftCount (a div 2))"
  by (subst shiftCount.simps) simp

lemma shiftCount_one: "shiftCount 9007199254740992 = 1" "shiftCount 9007199254740993 = 1"
  "shiftCount 9007199254740995 = 1"
  by (simp_all add: shiftCount_next shiftCount_small)

text \<open>
  Between \<open>2^53\<close> and \<open>2^54\<close> the doubles are the even integers: \<open>2^53 + 1\<close> is
  rounded down to \<open>2^53\<close> and \<open>2^53 + 3\<close> up to \<open>2^53 + 4\<close>.
\<close>

lemma toDouble_limit: "toDouble 9007199254740993 = 9007199254740992"
  by (simp add: toDouble_def Let_def shiftCount_one)

lemma toDouble_up: "toDouble 9007199254740995 = 9007199254740996"
  by (simp add: toDouble_def Let_def shiftCount_one)

lemma toDouble_small: "\<bar>z\<bar> < 9007199254740992 \<Longrightarrow> toDouble z = z"
proof -
  assume a: "\<bar>z\<bar> < 9007199254740992"
  then have "nat \<bar>z\<bar> < 9007199254740992" by simp
  then have "shiftCount (nat \<bar>z\<bar>) = 0" by (rule shiftCount_small)
  then show ?thesis by (simp add: toDouble_def Let_def sgn_if)
qed

lemma toDouble_exact: "\<bar>z\<bar> \<le> 9007199254740992 \<Longrightarrow> toDouble z = z"
proof (cases "\<bar>z\<bar> < 9007199254740992")
  case True
  then show ?thesis by (rule toDouble_small)
next
  case False
  assume "\<bar>z\<bar> \<le> 9007199254740992"
  with False have "z = 9007199254740992 \<or> z = - 9007199254740992" by arith
  then show ?thesis by (auto simp: toDouble_def Let_def shiftCount_one)
qed

lemma toDouble_1: "toDouble 1 = 1" and toDouble_2: "toDouble 2 = 2"
  by (simp_all add: toDouble_small)

subsection \<open>The concrete states\<close>

lemma bob_registers:
  "register (firstRun\<lparr>tempFaceDescriptor := Some [0]\<rparr>) ''bob'' ''secret1'' = Inr bobLoggedIn"
  by (simp add: register_def firstRun_def bobLoggedIn_def trim_bob username_pattern_def
      is_word_char_def truthy_def getProp_def setProp_def objectPrototypeNames_def Let_def)

lemma blank_import:
  "importSnapshot bobLoggedIn (JsonObject blankOptionDoc) True True = (Done, Typed blankImported)"
  by (simp add: blankImported_def)

lemma stale_import:
  "importSnapshot bobLoggedIn (JsonObject staleTallyDoc) True True = (Done, Typed staleImported)"
  by (simp add: staleImported_def)

lemma constructor_logs_in:
  "importSnapshot bobLoggedIn (JsonObject constructorDoc) True True =
     (Done, Typed (replaceAll bobLoggedIn constructorDoc))
   \<and> loginWithFace (replaceAll bobLoggedIn constructorDoc) ''constructor'' = Inr ''constructor''"
  by (simp add: loginWithFace_def trim_constructor replaceAll_def bobLoggedIn_def firstRun_def
      truthyFlag_def getProp_def objectPrototypeNames_def Let_def)

lemma ran_bob: "ran (faceDescriptors bobLoggedIn) = {[0]}"
  by (simp add: bobLoggedIn_def)

lemma euclid_single: "euclid [x] [y] = \<bar>x - y\<bar>"
  by (simp add: euclid_def)

subsection \<open>Counting a vote\<close>

text \<open>The checks of \<^verbatim>\<open>vote\<close>, in the order of the script, in every state.\<close>

lemma castVote_checks_in_order:
  "castVote st opt faceDetected =
     (if \<not> loggedIn (user st) then Inl Unauthenticated
      else if \<not> votingOpen (settings st) then Inl VotingClosed
      else if \<not> allowMultipleVotes (settings st) \<and> hasUserVoted st (userKey (user st))
        then Inl AlreadyVoted
      else if opt \<notin> set (options st) then Inl UnknownOption
      else if requireFaceCheck (settings st) \<and> \<not> faceDetected then Inl VerificationFailure
      else Inr (finalizeVote st opt))"
  by (simp add: castVote_def vote_def)

text \<open>
  \<^verbatim>\<open>finalizeVote\<close> where no name of \<^verbatim>\<open>Object.prototype\<close> and no count of
  \<open>2^53\<close> or more is met: the count of the option goes up by one, a missing entry
  becomes 1, and under the single-vote policy the option is recorded for the current
  user; nothing else changes.
\<close>

lemma finalizeVote_counts:
  assumes "countable st opt" and "user st = Some u" and "u \<notin> set objectPrototypeNames"
  shows "finalizeVote st opt =
     (if allowMultipleVotes (settings st)
      then st\<lparr>votes := (votes st)(opt \<mapsto>
                 Count ((case votes st opt of None \<Rightarrow> 0 | Some v \<Rightarrow> countOf v) + 1))\<rparr>
      else st\<lparr>votes := (votes st)(opt \<mapsto>
                 Count ((case votes st opt of None \<Rightarrow> 0 | Some v \<Rightarrow> countOf v) + 1)),
              userVotes := (userVotes st)(u \<mapsto> opt)\<rparr>)"
proof (cases "votes st opt")
  case None
  with assms(1) have "opt \<notin> set objectPrototypeNames" by (simp add: countable_def)
  then show ?thesis
    using None assms(2,3)
    by (simp add: finalizeVote_def Let_def getProp_plain keepOrZero_def addOne_def toDouble_1
        setProp_plain userKey_def)
next
  case (Some w)
  with assms(1) obtain n where w: "w = Count n" and small: "\<bar>n\<bar> < 9007199254740992"
    by (cases w) (auto simp: countable_def)
  from small have "toDouble (n + 1) = n + 1" by (intro toDouble_exact) arith
  then show ?thesis
    using Some w assms(2,3)
    by (simp add: finalizeVote_def Let_def getProp_own keepOrZero_def addOne_def toDouble_1
        setProp_own setProp_plain userKey_def countOf_def)
qed

text \<open>
  The key of the record is the current user's name; without a current user it is the
  string \<^verbatim>\<open>null\<close>.
\<close>

lemma finalizeVote_record_key:
  assumes "\<not> allowMultipleVotes (settings st)"
  shows "user st = Some u \<Longrightarrow> u \<noteq> ''__proto__'' \<Longrightarrow>
           userVotes (finalizeVote st opt) = (userVotes st)(u \<mapsto> opt)"
    and "user st = None \<Longrightarrow> userVotes (finalizeVote st opt) = (userVotes st)(''null'' \<mapsto> opt)"
  using assms by (simp_all add: finalizeVote_def Let_def userKey_def setProp_def)

text \<open>
  After a counted vote for an option that is not the empty string, every further
  \<open>castVote\<close> in the state it returns is refused.
\<close>

lemma castVote_repeat_rejected:
  assumes "\<not> allowMultipleVotes (settings st)"
    and "castVote st opt faceDetected = Inr st'"
    and "opt \<noteq> []"
  shows "castVote st' opt' faceDetected' = Inl AlreadyVoted"
proof -
  from assms(2) have st': "st' = finalizeVote st opt"
    and u: "loggedIn (user st)" and op: "votingOpen (settings st)"
    and nv: "\<not> hasUserVoted st (userKey (user st))"
    using assms(1) by (auto simp: castVote_def vote_def split: if_splits)
  from u obtain name where name: "user st = Some name" "name \<noteq> []"
    by (cases "user st") (auto simp: loggedIn_def)
  from nv name have free: "userVotes st name \<noteq> None \<or> name \<noteq> ''__proto__''"
    using proto_is_inherited
    by (auto simp: hasUserVoted_def userKey_def truthy_def getProp_def split: option.splits)
  then have rec: "userVotes st' name = Some opt"
    using assms(1) name by (auto simp: st' finalizeVote_def Let_def userKey_def setProp_def)
  have same: "user st' = user st" "settings st' = settings st"
    by (simp_all add: st' finalizeVote_def Let_def)
  show ?thesis
    using assms(1,3) name op rec same
    by (simp add: castVote_def vote_def loggedIn_def hasUserVoted_def userKey_def truthy_def
        getProp_own)
qed

subsection \<open>A password with white space\<close>

text \<open>
  \<^verbatim>\<open>register\<close> stores the password as typed and \<^verbatim>\<open>login\<close> compares the
  trimmed input with it: a password registered with a space at its end never logs in.
\<close>

lemma padded_password_locked_out:
  "register (firstRun\<lparr>tempFaceDescriptor := Some [0]\<rparr>) ''bob'' ''secret '' = Inr st
   \<Longrightarrow> login st ''bob'' ''secret '' = Inl InvalidCredentials"
  by (auto simp: register_def login_def trim_def is_js_space_def truthy_def username_pattern_def
      is_word_char_def firstRun_def getProp_def setProp_def objectPrototypeNames_def Let_def)

subsection \<open>The sum of a Tally under updates\<close>

lemma sum_without_key:
  fixes m :: "'a \<rightharpoonup> tally"
  assumes "finite (dom m)"
  shows "(\<Sum>k \<in> dom m - {a}. countOf (the (m k))) =
         sumValues m - (case m a of None \<Rightarrow> 0 | Some v \<Rightarrow> countOf v)"
proof (cases "m a")
  case None
  then have "dom m - {a} = dom m" by auto
  then show ?thesis using None by (simp add: sumValues_def)
next
  case (Some v)
  then have "a \<in> dom m" by auto
  with assms have "(\<Sum>k \<in> dom m. countOf (the (m k))) =
      countOf (the (m a)) + (\<Sum>k \<in> dom m - {a}. countOf (the (m k)))"
    by (rule sum.remove)
  then show ?thesis using Some by (simp add: sumValues_def)
qed

lemma sumValues_delete:
  fixes m :: "'a \<rightharpoonup> tally"
  assumes "finite (dom m)"
  shows "sumValues (m(a := None)) = sumValues m - (case m a of None \<Rightarrow> 0 | Some v \<Rightarrow> countOf v)"
proof -
  have "sumValues (m(a := None)) = (\<Sum>k \<in> dom m - {a}. countOf (the ((m(a := None)) k)))"
    by (simp add: sumValues_def)
  also have "\<dots> = (\<Sum>k \<in> dom m - {a}. countOf (the (m k)))"
    by (rule sum.cong) auto
  finally show ?thesis using sum_without_key [OF assms] by simp
qed

lemma sumValues_update:
  fixes m :: "'a \<rightharpoonup> tally"
  assumes "finite (dom m)"
  shows "sumValues (m(a \<mapsto> v)) =
         sumValues m - (case m a of None \<Rightarrow> 0 | Some w \<Rightarrow> countOf w) + countOf v"
proof -
  let ?D = "dom m - {a}"
  have fin: "finite ?D" using assms by simp
  have notin: "a \<notin> ?D" by simp
  have "dom (m(a \<mapsto> v)) = insert a ?D" by auto
  then have s1: "sumValues (m(a \<mapsto> v)) = (\<Sum>k \<in> insert a ?D. countOf (the ((m(a \<mapsto> v)) k)))"
    unfolding sumValues_def by (rule arg_cong)
  have s2: "(\<Sum>k \<in> insert a ?D. countOf (the ((m(a \<mapsto> v)) k))) =
            countOf (the ((m(a \<mapsto> v)) a)) + (\<Sum>k \<in> ?D. countOf (the ((m(a \<mapsto> v)) k)))"
    using fin notin by (rule sum.insert)
  have s3: "(\<Sum>k \<in> ?D. countOf (the ((m(a \<mapsto> v)) k))) = (\<Sum>k \<in> ?D. countOf (the (m k)))"
    by (rule sum.cong) auto
  have s4: "countOf (the ((m(a \<mapsto> v)) a)) = countOf v" by simp
  show ?thesis
    unfolding s1 s2 s3 s4 sum_without_key [OF assms, of a] by simp
qed

lemma sumValues_zeroed:
  fixes m :: "'a \<rightharpoonup> tally"
  shows "sumValues (\<lambda>k. map_option (\<lambda>_. Count 0) (m k)) = 0"
  unfolding sumValues_def by (rule sum.neutral) (auto simp: dom_def countOf_def)

lemma dom_zeroed: "dom (\<lambda>k. map_option (\<lambda>_. Count 0) (m k)) = dom m"
  by (auto simp: dom_def)

lemma numbers_only: "NonNumber \<notin> ran m \<longleftrightarrow> (\<forall>k. m k \<noteq> Some NonNumber)"
  by (auto simp: ran_def)

lemma counted_vote:
  assumes fin: "finite (dom (votes st))" and num: "NonNumber \<notin> ran (votes st)"
    and ok: "countable st opt"
  shows "finite (dom (votes (finalizeVote st opt)))
    \<and> NonNumber \<notin> ran (votes (finalizeVote st opt))
    \<and> tallySum (finalizeVote st opt) = tallySum st + 1"
proof (cases "votes st opt")
  case None
  with ok have plain: "opt \<notin> set objectPrototypeNames" by (simp add: countable_def)
  have v: "votes (finalizeVote st opt) = (votes st)(opt \<mapsto> Count 1)"
    using None plain
    by (simp add: finalizeVote_def Let_def getProp_plain keepOrZero_def addOne_def toDouble_1
        setProp_plain)
  show ?thesis
    using fin num None
    by (simp add: v tallySum_def sumValues_update countOf_def numbers_only)
next
  case (Some w)
  with num have "w \<noteq> NonNumber" by (auto simp: numbers_only)
  then obtain n where w: "w = Count n" by (cases w) auto
  with ok Some have small: "\<bar>n\<bar> < 9007199254740992" by (simp add: countable_def)
  then have "toDouble (n + 1) = n + 1" by (intro toDouble_exact) arith
  then have v: "votes (finalizeVote st opt) = (votes st)(opt \<mapsto> Count (n + 1))"
    using Some w
    by (simp add: finalizeVote_def Let_def getProp_own keepOrZero_def addOne_def setProp_own
        toDouble_1)
  show ?thesis
    using fin num Some w
    by (simp add: v tallySum_def sumValues_update countOf_def numbers_only)
qed

lemma added_option:
  assumes fin: "finite (dom (votes st))" and num: "NonNumber \<notin> ran (votes st)"
    and ok: "trim raw \<in> set objectPrototypeNames \<longrightarrow> votes st (trim raw) \<noteq> None"
  shows "finite (dom (votes (snd (addOption st raw))))
    \<and> NonNumber \<notin> ran (votes (snd (addOption st raw)))
    \<and> tallySum (snd (addOption st raw)) = tallySum st"
proof (cases "trim raw = [] \<or> trim raw \<in> set (options st)")
  case True
  then show ?thesis using fin num by (auto simp: addOption_def Let_def)
next
  case False
  show ?thesis
  proof (cases "votes st (trim raw)")
    case None
    with ok have plain: "trim raw \<notin> set objectPrototypeNames" by blast
    have v: "votes (snd (addOption st raw)) = (votes st)(trim raw \<mapsto> Count 0)"
      using False None plain
      by (simp add: addOption_def Let_def getProp_plain keepOrZero_def setProp_plain)
    show ?thesis
      using fin num None
      by (simp add: v tallySum_def sumValues_update countOf_def numbers_only)
  next
    case (Some w)
    with num have "w \<noteq> NonNumber" by (auto simp: numbers_only)
    then obtain n where w: "w = Count n" by (cases w) auto
    have v: "votes (snd (addOption st raw)) = (votes st)(trim raw \<mapsto> Count n)"
      using False Some w
      by (simp add: addOption_def Let_def getProp_own keepOrZero_def setProp_own)
    show ?thesis
      using fin num Some w
      by (simp add: v tallySum_def sumValues_update countOf_def numbers_only)
  qed
qed

lemma removed_option:
  assumes fin: "finite (dom (votes st))" and num: "NonNumber \<notin> ran (votes st)"
  shows "finite (dom (votes (removeOption st opt)))
    \<and> NonNumber \<notin> ran (votes (removeOption st opt))
    \<and> tallySum (removeOption st opt) =
        tallySum st - (case votes st opt of None \<Rightarrow> 0 | Some v \<Rightarrow> countOf v)"
  using fin num
  by (simp add: removeOption_def tallySum_def sumValues_delete numbers_only)

lemma reset_votes:
  assumes fin: "finite (dom (votes st))"
  shows "finite (dom (votes (resetVotes st True)))
    \<and> NonNumber \<notin> ran (votes (resetVotes st True))
    \<and> tallySum (resetVotes st True) = 0"
  using fin
  by (simp add: resetVotes_def tallySum_def sumValues_zeroed dom_zeroed numbers_only)

lemma votes_register: "register st u p = Inr st' \<Longrightarrow> votes st' = votes st"
  by (auto simp: register_def Let_def split: option.splits if_splits)

lemma votes_login: "login st u p = Inr st' \<Longrightarrow> votes st' = votes st"
  by (auto simp: login_def Let_def split: if_splits)

lemma votes_adminLogin: "adminLogin st u p = Inr st' \<Longrightarrow> votes st' = votes st"
  by (auto simp: adminLogin_def split: if_splits)

lemma votes_scan: "registrationScan distance st d = Inr st' \<Longrightarrow> votes st' = votes st"
  by (auto simp: registrationScan_def split: option.splits if_splits)

lemma votes_writeSettings: "votes (writeSettings st f) = votes st"
  by (simp add: writeSettings_def)

lemma same_votes_counted:
  "tallyCounted s \<Longrightarrow> votes st' = votes (app s) \<Longrightarrow> tallyCounted (s\<lparr>app := st'\<rparr>)"
  by (simp add: tallyCounted_def tallySum_def)

lemma same_app_counted:
  "tallyCounted s \<Longrightarrow> tallyCounted (s\<lparr>pending := p\<rparr>)"
  by (simp add: tallyCounted_def)

lemma callBack_tallyCounted:
  assumes inv: "tallyCounted s"
    and ok: "case c of FinalizeVote opt \<Rightarrow> countable (app s) opt | _ \<Rightarrow> True"
  shows "tallyCounted (callBack distance (s\<lparr>pending := p\<rparr>) c d)"
proof (cases c)
  case (FinalizeVote opt)
  with ok have "countable (app s) opt" by simp
  with inv have "finite (dom (votes (finalizeVote (app s) opt)))
    \<and> NonNumber \<notin> ran (votes (finalizeVote (app s) opt))
    \<and> tallySum (finalizeVote (app s) opt) = tallySum (app s) + 1"
    by (intro counted_vote) (simp_all add: tallyCounted_def)
  then show ?thesis using inv FinalizeVote by (simp add: tallyCounted_def)
next
  case (FaceLogin u)
  then show ?thesis using inv by (simp add: tallyCounted_def tallySum_def faceLogin_def)
next
  case RegistrationScan
  then show ?thesis using inv
    by (auto simp: tallyCounted_def tallySum_def dest: votes_scan split: sum.splits)
qed

lemma step_tallyCounted:
  assumes inv: "tallyCounted s" and ok: "plainStep s e"
  shows "tallyCounted (step distance s e)"
proof (cases e)
  case StartScan
  then show ?thesis using inv by (simp add: tallyCounted_def)
next
  case (Register u p)
  then show ?thesis using inv
    by (auto simp: tallyCounted_def tallySum_def dest: votes_register split: sum.splits)
next
  case (Login u p)
  then show ?thesis using inv
    by (auto simp: tallyCounted_def tallySum_def dest: votes_login split: sum.splits)
next
  case (LoginWithFace u)
  then show ?thesis using inv by (auto simp: tallyCounted_def split: sum.splits)
next
  case Logout
  then show ?thesis using inv by (simp add: tallyCounted_def tallySum_def logoutUser_def)
next
  case (AdminLogin u p)
  then show ?thesis using inv
    by (auto simp: tallyCounted_def tallySum_def dest: votes_adminLogin split: sum.splits)
next
  case AdminLogout
  then show ?thesis using inv by (simp add: tallyCounted_def tallySum_def logoutAdmin_def)
next
  case (Vote opt)
  show ?thesis
  proof (cases "vote (app s) opt")
    case (Toast x)
    then show ?thesis using inv Vote by simp
  next
    case (FaceVerification x)
    then show ?thesis using inv Vote by (simp add: tallyCounted_def)
  next
    case (Voted st')
    then have st': "st' = finalizeVote (app s) opt"
      by (auto simp: vote_def split: if_splits)
    from ok Vote Voted have "countable (app s) opt" by simp
    with inv have "finite (dom (votes (finalizeVote (app s) opt)))
      \<and> NonNumber \<notin> ran (votes (finalizeVote (app s) opt))
      \<and> tallySum (finalizeVote (app s) opt) = tallySum (app s) + 1"
      by (intro counted_vote) (simp_all add: tallyCounted_def)
    then show ?thesis using inv Vote Voted st' by (simp add: tallyCounted_def)
  qed
next
  case (FaceDetected i d)
  show ?thesis
  proof (cases "i < length (pending s)")
    case True
    with ok FaceDetected
    have "case pending s ! i of FinalizeVote opt \<Rightarrow> countable (app s) opt | _ \<Rightarrow> True"
      by simp
    with inv have "tallyCounted (callBack distance (s\<lparr>pending := without i (pending s)\<rparr>) (pending s ! i) d)"
      by (rule callBack_tallyCounted)
    then show ?thesis using True FaceDetected by simp
  next
    case False
    then show ?thesis using inv FaceDetected by simp
  qed
next
  case (FaceAborted i)
  then show ?thesis using inv by (simp add: tallyCounted_def)
next
  case (AddOption raw)
  with ok have "trim raw \<in> set objectPrototypeNames \<longrightarrow> votes (app s) (trim raw) \<noteq> None"
    by simp
  with inv have "finite (dom (votes (snd (addOption (app s) raw))))
    \<and> NonNumber \<notin> ran (votes (snd (addOption (app s) raw)))
    \<and> tallySum (snd (addOption (app s) raw)) = tallySum (app s)"
    by (intro added_option) (simp_all add: tallyCounted_def)
  then show ?thesis using inv AddOption by (simp add: tallyCounted_def)
next
  case (RemoveOption opt)
  from inv have "finite (dom (votes (removeOption (app s) opt)))
    \<and> NonNumber \<notin> ran (votes (removeOption (app s) opt))
    \<and> tallySum (removeOption (app s) opt) =
        tallySum (app s) - (case votes (app s) opt of None \<Rightarrow> 0 | Some v \<Rightarrow> countOf v)"
    by (intro removed_option) (simp_all add: tallyCounted_def)
  then show ?thesis using inv RemoveOption by (simp add: tallyCounted_def)
next
  case (ResetVotes c)
  from inv have "finite (dom (votes (resetVotes (app s) True)))
    \<and> NonNumber \<notin> ran (votes (resetVotes (app s) True))
    \<and> tallySum (resetVotes (app s) True) = 0"
    by (intro reset_votes) (simp add: tallyCounted_def)
  then show ?thesis using inv ResetVotes by (simp add: tallyCounted_def)
next
  case (ToggleVoting b)
  then show ?thesis using inv
    by (simp add: tallyCounted_def tallySum_def toggleVoting_def votes_writeSettings)
next
  case (ToggleResults b)
  then show ?thesis using inv
    by (simp add: tallyCounted_def tallySum_def toggleResults_def votes_writeSettings)
next
  case (ToggleFaceCheck b)
  then show ?thesis using inv
    by (simp add: tallyCounted_def tallySum_def toggleFaceCheck_def votes_writeSettings)
qed

lemma run_tallyCounted:
  "tallyCounted s \<Longrightarrow> plainRun distance s evs \<Longrightarrow> tallyCounted (run distance s evs)"
  unfolding run_def
  by (induction evs arbitrary: s) (simp_all add: step_tallyCounted)

subsection \<open>Tally keys under option edits\<close>

text \<open>
  Every edit but the addition of the name \<^verbatim>\<open>__proto__\<close> keeps the Tally keys equal
  to the options.
\<close>

lemma addOption_keeps_keys:
  "tallyKeysAreOptions st \<Longrightarrow> trim raw \<noteq> ''__proto__'' \<Longrightarrow>
     tallyKeysAreOptions (snd (addOption st raw))"
  by (auto simp: tallyKeysAreOptions_def addOption_def setProp_def Let_def)

lemma removeOption_keeps_keys:
  "tallyKeysAreOptions st \<Longrightarrow> tallyKeysAreOptions (removeOption st opt)"
  by (auto simp: tallyKeysAreOptions_def removeOption_def)

lemma tally_keys_kept:
  "tallyKeysAreOptions st \<Longrightarrow> \<forall>raw. AddEdit raw \<in> set es \<longrightarrow> trim raw \<noteq> ''__proto__'' \<Longrightarrow>
     list_all tallyKeysAreOptions (statesAfter st es)"
proof (induction es arbitrary: st)
  case Nil
  then show ?case by simp
next
  case (Cons e es)
  have "tallyKeysAreOptions (applyEdit st e)"
  proof (cases e)
    case (AddEdit raw)
    with Cons.prems show ?thesis by (simp add: applyEdit_def addOption_keeps_keys)
  next
    case (RemoveEdit opt)
    with Cons.prems show ?thesis by (simp add: applyEdit_def removeOption_keeps_keys)
  qed
  with Cons show ?case by simp
qed

subsection \<open>C1: the checks of castVote\<close>

text \<open>
  Claim C1 says that \<open>castVote\<close> reports \<open>AlreadyVoted\<close> when the identity has a
  VoteRecord, and that a vote passing every check adds one to the Tally entry of its
  option. The script does neither for a name that \<^verbatim>\<open>Object.prototype\<close> has.
  The admin adds the option \<^verbatim>\<open>__proto__\<close>, which the option list takes;
  \<^verbatim>\<open>bob\<close>, logged in and without a record, votes for it with voting open and
  his face detected: the vote is accepted and recorded for \<^verbatim>\<open>bob\<close>, and the
  Tally has no entry for the option afterwards. The user name \<^verbatim>\<open>constructor\<close>
  passes \<^verbatim>\<open>loginWithFace\<close> without an enrollment; that user has no VoteRecord and
  \<open>castVote\<close> answers \<open>AlreadyVoted\<close>.
\<close>

theorem C1_prototype_names_defeat_checks:
  "addOption bobLoggedIn ''__proto__'' = (Done, protoAdded)
   \<and> options protoAdded = [''Option A'', ''Option B'', ''Option C'', ''__proto__'']
   \<and> user protoAdded = Some ''bob'' \<and> votingOpen (settings protoAdded)
   \<and> \<not> allowMultipleVotes (settings protoAdded) \<and> userVotes protoAdded ''bob'' = None
   \<and> castVote protoAdded ''__proto__'' True =
       Inr (protoAdded\<lparr>userVotes := [''bob'' \<mapsto> ''__proto__'']\<rparr>)
   \<and> votes protoAdded ''__proto__'' = None
   \<and> loginWithFace bobLoggedIn ''constructor'' = Inr ''constructor''
   \<and> userVotes (faceLogin bobLoggedIn ''constructor'') ''constructor'' = None
   \<and> castVote (faceLogin bobLoggedIn ''constructor'') ''Option A'' True = Inl AlreadyVoted"
  by (simp add: protoAdded_def addOption_def trim_proto trim_constructor bobLoggedIn_def firstRun_def
      builtin_settings_def castVote_def vote_def finalizeVote_def hasUserVoted_def truthy_def
      truthyFlag_def loggedIn_def userKey_def getProp_def setProp_def keepOrZero_def addOne_def
      objectPrototypeNames_def loginWithFace_def faceLogin_def Let_def)

subsection \<open>C2: a repeated castVote\<close>

text \<open>
  Claim C2 says that under the single-vote policy a second \<open>castVote\<close> by the same
  identity fails with \<open>AlreadyVoted\<close> and leaves the Tally unchanged. In the state
  after the import of a document whose option list holds the empty string,
  \<^verbatim>\<open>bob\<close> votes for that option twice: both votes are counted, since the record
  \<^verbatim>\<open>""\<close> that the first vote writes is falsy in \<^verbatim>\<open>hasUserVoted\<close>.
\<close>

theorem C2_blank_option_counted_twice:
  "\<not> allowMultipleVotes (settings blankImported)
   \<and> user blankImported = Some ''bob''
   \<and> castVote blankImported '''' True =
       Inr (blankImported\<lparr>votes := ['''' \<mapsto> Count 1], userVotes := [''bob'' \<mapsto> '''']\<rparr>)
   \<and> castVote (blankImported\<lparr>votes := ['''' \<mapsto> Count 1], userVotes := [''bob'' \<mapsto> '''']\<rparr>) '''' True =
       Inr (blankImported\<lparr>votes := ['''' \<mapsto> Count 2], userVotes := [''bob'' \<mapsto> '''']\<rparr>)"
  by (simp add: blankImported_def replaceAll_def blankOptionDoc_def bobLoggedIn_def firstRun_def
      builtin_settings_def castVote_def vote_def loggedIn_def truthy_def hasUserVoted_def userKey_def
      finalizeVote_def getProp_def setProp_def keepOrZero_def addOne_def toDouble_1 toDouble_2
      objectPrototypeNames_def Let_def)

text \<open>
  With the face check on, two votes started before either verification calls back
  are both counted as well: the callback does not look at the record again.
\<close>

lemma overlapping_verifications_count_twice:
  "votes (app (run euclid (boot bobLoggedIn)
       [Vote ''Option A'', Vote ''Option A'', FaceDetected 0 [0], FaceDetected 0 [0]]))
     ''Option A'' = Some (Count 2)
   \<and> \<not> allowMultipleVotes (settings (app (run euclid (boot bobLoggedIn)
        [Vote ''Option A'', Vote ''Option A'', FaceDetected 0 [0], FaceDetected 0 [0]])))"
  by (simp add: run_def boot_def bobLoggedIn_def firstRun_def builtin_settings_def vote_def
      loggedIn_def truthy_def hasUserVoted_def userKey_def finalizeVote_def getProp_def setProp_def
      keepOrZero_def addOne_def toDouble_1 toDouble_2 without_def objectPrototypeNames_def Let_def)

subsection \<open>C3: Tally keys and the option list\<close>

text \<open>
  Claim C3 says that the Tally keys equal the option list after every call of a
  sequence of \<open>addOption\<close> and \<open>removeOption\<close>. On the first-run state, where they
  are equal, adding the option \<^verbatim>\<open>__proto__\<close> succeeds and appends the name to the
  option list, and the Tally keeps its three keys: the assignment
  \<^verbatim>\<open>state.votes["__proto__"] = ...\<close> reaches the setter of \<^verbatim>\<open>Object.prototype\<close>
  and creates no property. After this one call the keys and the options differ.
\<close>

theorem C3_proto_option_breaks_keys:
  "tallyKeysAreOptions firstRun
   \<and> addOption firstRun ''__proto__'' =
       (Done, firstRun\<lparr>options := [''Option A'', ''Option B'', ''Option C'', ''__proto__'']\<rparr>)
   \<and> dom (votes (snd (addOption firstRun ''__proto__''))) = {''Option A'', ''Option B'', ''Option C''}
   \<and> \<not> list_all tallyKeysAreOptions (statesAfter firstRun [AddEdit ''__proto__''])"
proof -
  have inv: "tallyKeysAreOptions firstRun"
    by (auto simp: tallyKeysAreOptions_def firstRun_def)
  have add: "addOption firstRun ''__proto__'' =
       (Done, firstRun\<lparr>options := [''Option A'', ''Option B'', ''Option C'', ''__proto__'']\<rparr>)"
    by (simp add: addOption_def trim_proto firstRun_def setProp_def Let_def)
  have keys: "dom (votes (snd (addOption firstRun ''__proto__''))) = {''Option A'', ''Option B'', ''Option C''}"
    unfolding add by (auto simp: firstRun_def)
  have "''__proto__'' \<in> set (options (snd (addOption firstRun ''__proto__'')))"
    by (simp add: add)
  moreover have "''__proto__'' \<notin> dom (votes (snd (addOption firstRun ''__proto__'')))"
    by (simp add: keys)
  ultimately have "\<not> tallyKeysAreOptions (snd (addOption firstRun ''__proto__''))"
    unfolding tallyKeysAreOptions_def by blast
  then have broken: "\<not> list_all tallyKeysAreOptions (statesAfter firstRun [AddEdit ''__proto__''])"
    by (simp add: applyEdit_def)
  from inv add keys broken show ?thesis by blast
qed

subsection \<open>C4: the sum of the Tally\<close>

text \<open>
  Claim C4, amended. Take a run of the handlers (scan, register, login, logout, vote,
  the verification callbacks, add, remove, reset, the toggles; not the import) from a
  system where the accounting holds, in which every vote that is counted meets either
  a count below \<open>2^53\<close> or no Tally entry and an option name that
  \<^verbatim>\<open>Object.prototype\<close> does not have, and every added name that
  \<^verbatim>\<open>Object.prototype\<close> has is already a Tally key. After it the Tally is finite
  and holds numbers only, and the sum of its values plus the counts that option
  removals have deleted since the last reset equals the number of
  \<^verbatim>\<open>finalizeVote\<close> calls since that reset. \<open>removeOption\<close> lowers the sum by the
  count of the removed option.
\<close>

theorem C4_tally_sum_accounting:
  assumes "tallyCounted s" and "plainRun distance s evs"
  shows "tallyCounted (run distance s evs)
    \<and> tallySum (app (run distance s evs)) =
        casts (run distance s evs) - discarded (run distance s evs)
    \<and> tallySum (removeOption (app s) opt) =
        tallySum (app s) - (case votes (app s) opt of None \<Rightarrow> 0 | Some v \<Rightarrow> countOf v)"
proof -
  have inv: "tallyCounted (run distance s evs)" using assms by (rule run_tallyCounted)
  then have eq: "tallySum (app (run distance s evs)) =
        casts (run distance s evs) - discarded (run distance s evs)"
    by (simp add: tallyCounted_def)
  have rem: "tallySum (removeOption (app s) opt) =
        tallySum (app s) - (case votes (app s) opt of None \<Rightarrow> 0 | Some v \<Rightarrow> countOf v)"
    using assms(1) removed_option [of "app s" opt] by (simp add: tallyCounted_def)
  from inv eq rem show ?thesis by blast
qed

text \<open>
  The theorem on a run with one counted vote, an added option and the removal of the
  option voted for: one vote cast, one count discarded, and the sum is zero.
\<close>

theorem C4_witness:
  "tallyCounted (boot bobLoggedIn)
   \<and> plainRun euclid (boot bobLoggedIn)
       [Vote ''Option A'', FaceDetected 0 [0], AddOption ''X'', RemoveOption ''Option A'']
   \<and> casts (run euclid (boot bobLoggedIn)
       [Vote ''Option A'', FaceDetected 0 [0], AddOption ''X'', RemoveOption ''Option A'']) = 1
   \<and> discarded (run euclid (boot bobLoggedIn)
       [Vote ''Option A'', FaceDetected 0 [0], AddOption ''X'', RemoveOption ''Option A'']) = 1
   \<and> tallySum (app (run euclid (boot bobLoggedIn)
       [Vote ''Option A'', FaceDetected 0 [0], AddOption ''X'', RemoveOption ''Option A''])) = 0"
proof -
  let ?evs = "[Vote ''Option A'', FaceDetected 0 [0], AddOption ''X'', RemoveOption ''Option A'']"
  have h: "tallyCounted (boot bobLoggedIn)"
    by (simp add: tallyCounted_def boot_def bobLoggedIn_def firstRun_def tallySum_def
        sumValues_def countOf_def)
  have p: "plainRun euclid (boot bobLoggedIn) ?evs"
    by (simp add: boot_def bobLoggedIn_def firstRun_def builtin_settings_def vote_def
        loggedIn_def truthy_def hasUserVoted_def userKey_def finalizeVote_def getProp_def
        setProp_def keepOrZero_def addOne_def toDouble_1 without_def countable_def trim_X
        addOption_def objectPrototypeNames_def Let_def)
  have c: "casts (run euclid (boot bobLoggedIn) ?evs) = 1"
    by (simp add: run_def boot_def bobLoggedIn_def firstRun_def builtin_settings_def vote_def
        loggedIn_def truthy_def hasUserVoted_def userKey_def finalizeVote_def getProp_def
        setProp_def keepOrZero_def addOne_def toDouble_1 without_def trim_X addOption_def
        objectPrototypeNames_def Let_def)
  have d: "discarded (run euclid (boot bobLoggedIn) ?evs) = 1"
    by (simp add: run_def boot_def bobLoggedIn_def firstRun_def builtin_settings_def vote_def
        loggedIn_def truthy_def hasUserVoted_def userKey_def finalizeVote_def getProp_def
        setProp_def keepOrZero_def addOne_def toDouble_1 without_def trim_X addOption_def
        countOf_def objectPrototypeNames_def Let_def)
  show ?thesis
    using C4_tally_sum_accounting [OF h p, of "''Option A''"] h p c d
    by simp
qed

text \<open>
  The claim as stated fails twice. After one counted vote for \<^verbatim>\<open>Option A\<close> and
  the removal of that option, one vote has been cast since the last reset and the sum
  of the Tally is zero. And an import sets the Tally to the counts of the document:
  with no vote cast, the sum goes from 0 to 7.
\<close>

theorem C4_counterexample:
  "casts (run euclid (boot bobLoggedIn)
       [Vote ''Option A'', FaceDetected 0 [0], RemoveOption ''Option A'']) = 1
   \<and> tallySum (app (run euclid (boot bobLoggedIn)
       [Vote ''Option A'', FaceDetected 0 [0], RemoveOption ''Option A''])) = 0
   \<and> tallySum bobLoggedIn = 0
   \<and> importSnapshot bobLoggedIn (JsonObject staleTallyDoc) True True = (Done, Typed staleImported)
   \<and> tallySum staleImported = 7"
proof -
  let ?evs = "[Vote ''Option A'', FaceDetected 0 [0], RemoveOption ''Option A'']"
  have c: "casts (run euclid (boot bobLoggedIn) ?evs) = 1"
    by (simp add: run_def boot_def bobLoggedIn_def firstRun_def builtin_settings_def vote_def
        loggedIn_def truthy_def hasUserVoted_def userKey_def finalizeVote_def getProp_def
        setProp_def keepOrZero_def addOne_def toDouble_1 without_def objectPrototypeNames_def
        Let_def)
  have s: "tallySum (app (run euclid (boot bobLoggedIn) ?evs)) = 0"
    by (simp add: run_def boot_def bobLoggedIn_def firstRun_def builtin_settings_def vote_def
        loggedIn_def truthy_def hasUserVoted_def userKey_def finalizeVote_def getProp_def
        setProp_def keepOrZero_def addOne_def toDouble_1 without_def removeOption_def
        tallySum_def sumValues_def countOf_def objectPrototypeNames_def Let_def)
  have b: "tallySum bobLoggedIn = 0"
    by (simp add: bobLoggedIn_def firstRun_def tallySum_def sumValues_def countOf_def)
  have "dom (votes staleImported) = {''A'', ''X''}"
    by (auto simp: staleImported_def replaceAll_def staleTallyDoc_def split: if_splits)
  then have i: "tallySum staleImported = 7"
    by (simp add: tallySum_def sumValues_def)
      (simp add: staleImported_def replaceAll_def staleTallyDoc_def countOf_def toDouble_exact)
  from c s b stale_import i show ?thesis by blast
qed

subsection \<open>C5: removeOption\<close>

text \<open>
  What the chip handler does, in every state: the option leaves the list, its Tally
  entry is deleted, and so is every record equal to it; an identity whose record is
  deleted, and whose name \<^verbatim>\<open>Object.prototype\<close> does not have, has not voted
  afterwards.
\<close>

lemma removeOption_cascade:
  "options (removeOption st name) = filter (\<lambda>o'. o' \<noteq> name) (options st)"
  "votes (removeOption st name) = (votes st)(name := None)"
  "userVotes (removeOption st name) u =
     (if userVotes st u = Some name then None else userVotes st u)"
  "userVotes st u = Some name \<Longrightarrow> u \<notin> set objectPrototypeNames \<Longrightarrow>
     \<not> hasUserVoted (removeOption st name) u"
  by (simp_all add: removeOption_def hasUserVoted_def getProp_def truthy_def)

text \<open>
  Claim C5 says that every identity whose record \<open>removeOption\<close> deletes returns to
  \<open>NotVoted\<close> and may vote again while voting is open. The user
  \<^verbatim>\<open>constructor\<close> has the record \<^verbatim>\<open>Option A\<close>; the option is removed
  and the record with it, no record is left, voting is open, and still
  \<^verbatim>\<open>hasUserVoted\<close> is true of that user and a vote for the remaining option is
  refused with \<open>AlreadyVoted\<close>: \<^verbatim>\<open>state.userVotes["constructor"]\<close> reads the
  inherited method.
\<close>

theorem C5_purged_identity_still_refused:
  "user constructorVoted = Some ''constructor''
   \<and> votingOpen (settings constructorVoted)
   \<and> userVotes constructorVoted ''constructor'' = Some ''Option A''
   \<and> options (removeOption constructorVoted ''Option A'') = [''Option B'']
   \<and> userVotes (removeOption constructorVoted ''Option A'') = Map.empty
   \<and> hasUserVoted (removeOption constructorVoted ''Option A'') ''constructor''
   \<and> castVote (removeOption constructorVoted ''Option A'') ''Option B'' True = Inl AlreadyVoted"
proof -
  have st: "user constructorVoted = Some ''constructor''
      \<and> votingOpen (settings constructorVoted)
      \<and> \<not> allowMultipleVotes (settings constructorVoted)
      \<and> userVotes constructorVoted ''constructor'' = Some ''Option A''"
    by (simp add: constructorVoted_def faceLogin_def replaceAll_def constructorDoc_def
        bobLoggedIn_def firstRun_def builtin_settings_def)
  have opts: "options (removeOption constructorVoted ''Option A'') = [''Option B'']"
    by (simp add: removeOption_def constructorVoted_def faceLogin_def replaceAll_def
        constructorDoc_def)
  have recs: "userVotes (removeOption constructorVoted ''Option A'') = Map.empty"
    by (rule ext)
      (simp add: removeOption_def constructorVoted_def faceLogin_def replaceAll_def
        constructorDoc_def)
  have voted: "hasUserVoted (removeOption constructorVoted ''Option A'') ''constructor''"
    by (simp add: hasUserVoted_def recs getProp_def truthy_def objectPrototypeNames_def)
  have same: "user (removeOption constructorVoted ''Option A'') = user constructorVoted"
    "settings (removeOption constructorVoted ''Option A'') = settings constructorVoted"
    by (simp_all add: removeOption_def)
  have cast: "castVote (removeOption constructorVoted ''Option A'') ''Option B'' True = Inl AlreadyVoted"
    using st voted same by (simp add: castVote_def vote_def loggedIn_def userKey_def)
  from st opts recs voted cast show ?thesis by blast
qed

subsection \<open>C6: importSnapshot\<close>

text \<open>
  Claim C6 says that an import that fails with \<open>MalformedDocument\<close> leaves the prior
  state unchanged. The handler assigns the five fields first and calls
  \<^verbatim>\<open>saveAll\<close> and the render functions after, inside the same \<^verbatim>\<open>try\<close>. When
  one of them throws, on a full \<^verbatim>\<open>localStorage\<close> or on a field of the wrong type
  such as \<^verbatim>\<open>{"options": 5}\<close>, the handler reports "Invalid JSON file." and the
  state has been replaced: \<^verbatim>\<open>bob\<close> is no longer registered and the option list
  is that of the document.
\<close>

theorem C6_error_after_replacement:
  "importSnapshot bobLoggedIn (JsonObject staleTallyDoc) True False =
     (Failed MalformedDocument, Typed staleImported)
   \<and> users bobLoggedIn ''bob'' = Some ''secret1''
   \<and> users staleImported ''bob'' = None
   \<and> options staleImported = [''A'']
   \<and> importSnapshot bobLoggedIn JsonIllTyped True False = (Failed MalformedDocument, Untyped)"
  by (simp add: staleImported_def replaceAll_def staleTallyDoc_def bobLoggedIn_def)

subsection \<open>C7: registration\<close>

text \<open>
  A user name that \<^verbatim>\<open>Object.prototype\<close> has is refused as a duplicate on a first
  run, where nobody is registered.
\<close>

lemma constructor_cannot_register:
  "register (firstRun\<lparr>tempFaceDescriptor := Some [0]\<rparr>) ''constructor'' ''secret1'' =
     Inl DuplicateUsername"
  by (simp add: register_def trim_constructor username_pattern_def is_word_char_def truthy_def
      firstRun_def getProp_def objectPrototypeNames_def Let_def)

text \<open>
  Claim C7, amended. Registration has two steps. The scan rejects a descriptor with
  \<open>DuplicateIdentity\<close> exactly when its distance to some enrolled descriptor is below
  0.55 (so at distance 0.1, and not when every distance is 0.9) and otherwise keeps it
  for the second step. \<^verbatim>\<open>register\<close> then checks, in this order: a kept descriptor
  (\<open>NoFaceScan\<close>), the trimmed user name has at least 3 characters
  (\<open>InvalidUsername\<close>), the password has at least 6 (\<open>WeakPassword\<close>), the trimmed
  user name matches \<^verbatim>\<open>[A-Za-z0-9_]+\<close> (\<open>InvalidUsername\<close>), and the user name is
  not registered (\<open>DuplicateUsername\<close>); the first failing check is reported and a
  failed step returns no new state. The statement covers every user name that
  \<^verbatim>\<open>Object.prototype\<close> does not have, in every state in which it is not registered
  with the empty password.
\<close>

theorem C7_registration_checks:
  assumes "users st (trim rawUser) \<noteq> Some []"
    and "trim rawUser \<notin> set objectPrototypeNames"
  shows "register st rawUser pass =
     (if tempFaceDescriptor st = None then Inl NoFaceScan
      else if length (trim rawUser) < 3 then Inl InvalidUsername
      else if length pass < 6 then Inl WeakPassword
      else if \<not> username_pattern (trim rawUser) then Inl InvalidUsername
      else if users st (trim rawUser) \<noteq> None then Inl DuplicateUsername
      else Inr (st\<lparr>users := (users st)(trim rawUser \<mapsto> pass),
                    faceEnrollments := (faceEnrollments st)(trim rawUser \<mapsto> True),
                    faceDescriptors := (faceDescriptors st)(trim rawUser \<mapsto> the (tempFaceDescriptor st)),
                    user := Some (trim rawUser),
                    tempFaceDescriptor := None\<rparr>))
    \<and> (stored \<in> ran (faceDescriptors st) \<and> distance d stored = 0.1 \<longrightarrow>
         registrationScan distance st (Some d) = Inl DuplicateIdentity)
    \<and> ((\<forall>s \<in> ran (faceDescriptors st). distance d s = 0.9) \<longrightarrow>
         registrationScan distance st (Some d) = Inr (st\<lparr>tempFaceDescriptor := Some d\<rparr>))
    \<and> registrationScan distance st (Some d) =
         (if \<exists>s \<in> ran (faceDescriptors st). distance d s < 0.55 then Inl DuplicateIdentity
          else Inr (st\<lparr>tempFaceDescriptor := Some d\<rparr>))"
proof -
  from assms have dup: "truthy (getProp (users st) (trim rawUser)) = (users st (trim rawUser) \<noteq> None)"
    by (cases "users st (trim rawUser)") (simp_all add: truthy_def getProp_def)
  have reg: "register st rawUser pass =
     (if tempFaceDescriptor st = None then Inl NoFaceScan
      else if length (trim rawUser) < 3 then Inl InvalidUsername
      else if length pass < 6 then Inl WeakPassword
      else if \<not> username_pattern (trim rawUser) then Inl InvalidUsername
      else if users st (trim rawUser) \<noteq> None then Inl DuplicateUsername
      else Inr (st\<lparr>users := (users st)(trim rawUser \<mapsto> pass),
                    faceEnrollments := (faceEnrollments st)(trim rawUser \<mapsto> True),
                    faceDescriptors := (faceDescriptors st)(trim rawUser \<mapsto> the (tempFaceDescriptor st)),
                    user := Some (trim rawUser),
                    tempFaceDescriptor := None\<rparr>))"
    using dup assms(2)
    by (cases "tempFaceDescriptor st") (simp_all add: register_def Let_def setProp_plain)
  have scan: "registrationScan distance st (Some d) =
         (if \<exists>s \<in> ran (faceDescriptors st). distance d s < 0.55 then Inl DuplicateIdentity
          else Inr (st\<lparr>tempFaceDescriptor := Some d\<rparr>))"
    by (simp add: registrationScan_def isDuplicate_def)
  have near: "stored \<in> ran (faceDescriptors st) \<and> distance d stored = 0.1 \<longrightarrow>
         registrationScan distance st (Some d) = Inl DuplicateIdentity"
  proof
    assume a: "stored \<in> ran (faceDescriptors st) \<and> distance d stored = 0.1"
    then have "distance d stored < 0.55" by simp
    with a have "\<exists>s \<in> ran (faceDescriptors st). distance d s < 0.55" by blast
    then show "registrationScan distance st (Some d) = Inl DuplicateIdentity"
      by (simp add: scan)
  qed
  have far: "(\<forall>s \<in> ran (faceDescriptors st). distance d s = 0.9) \<longrightarrow>
         registrationScan distance st (Some d) = Inr (st\<lparr>tempFaceDescriptor := Some d\<rparr>)"
  proof
    assume a: "\<forall>s \<in> ran (faceDescriptors st). distance d s = 0.9"
    have "\<not> (\<exists>s \<in> ran (faceDescriptors st). distance d s < 0.55)"
    proof
      assume "\<exists>s \<in> ran (faceDescriptors st). distance d s < 0.55"
      then obtain s where "s \<in> ran (faceDescriptors st)" "distance d s < 0.55" by blast
      with a show False by auto
    qed
    then show "registrationScan distance st (Some d) = Inr (st\<lparr>tempFaceDescriptor := Some d\<rparr>)"
      by (simp add: scan)
  qed
  from reg near far scan show ?thesis by blast
qed

text \<open>
  The theorem with the Euclidean distance and \<^verbatim>\<open>bob\<close> enrolled with the
  descriptor \<open>[0]\<close>: a face at distance 0.1 is rejected, one at distance 0.9 is
  kept, and \<^verbatim>\<open>register\<close> then refuses a short password and the name \<^verbatim>\<open>bob\<close>,
  and registers \<^verbatim>\<open>alice\<close>.
\<close>

theorem C7_witness:
  "users bobLoggedIn (trim ''alice'') \<noteq> Some []
   \<and> trim ''alice'' \<notin> set objectPrototypeNames
   \<and> [0] \<in> ran (faceDescriptors bobLoggedIn) \<and> euclid [0.1] [0] = 0.1
   \<and> registrationScan euclid bobLoggedIn (Some [0.1]) = Inl DuplicateIdentity
   \<and> registrationScan euclid bobLoggedIn (Some [0.9]) =
       Inr (bobLoggedIn\<lparr>tempFaceDescriptor := Some [0.9]\<rparr>)
   \<and> register (bobLoggedIn\<lparr>tempFaceDescriptor := Some [0.9]\<rparr>) ''alice'' ''12345'' = Inl WeakPassword
   \<and> register (bobLoggedIn\<lparr>tempFaceDescriptor := Some [0.9]\<rparr>) ''bob'' ''123456'' = Inl DuplicateUsername
   \<and> register (bobLoggedIn\<lparr>tempFaceDescriptor := Some [0.9]\<rparr>) ''alice'' ''123456'' =
       Inr (bobLoggedIn\<lparr>users := [''bob'' \<mapsto> ''secret1'', ''alice'' \<mapsto> ''123456''],
                        faceEnrollments := [''bob'' \<mapsto> True, ''alice'' \<mapsto> True],
                        faceDescriptors := [''bob'' \<mapsto> [0], ''alice'' \<mapsto> [0.9]],
                        user := Some ''alice''\<rparr>)"
proof -
  let ?st = "bobLoggedIn\<lparr>tempFaceDescriptor := Some [0.9]\<rparr>"
  have h1: "users ?st (trim ''alice'') \<noteq> Some []"
    and h2: "users ?st (trim ''bob'') \<noteq> Some []"
    and h0: "users bobLoggedIn (trim ''alice'') \<noteq> Some []"
    by (simp_all add: bobLoggedIn_def trim_alice trim_bob)
  have p1: "trim ''alice'' \<notin> set objectPrototypeNames"
    and p2: "trim ''bob'' \<notin> set objectPrototypeNames"
    by (simp_all add: trim_alice trim_bob objectPrototypeNames_def)
  have d1: "[0] \<in> ran (faceDescriptors bobLoggedIn) \<and> euclid [0.1] [0] = 0.1"
    by (simp add: ran_bob euclid_single)
  have d9: "\<forall>s \<in> ran (faceDescriptors bobLoggedIn). euclid [0.9] s = 0.9"
    by (simp add: ran_bob euclid_single)
  have pat: "username_pattern ''bob''" "username_pattern ''alice''"
    by (simp_all add: username_pattern_def is_word_char_def)
  show ?thesis
    using C7_registration_checks [OF h0 p1, where stored = "[0]" and distance = euclid and d = "[0.1]" and pass = "[]"]
      C7_registration_checks [OF h0 p1, where stored = "[0]" and distance = euclid and d = "[0.9]" and pass = "[]"]
      C7_registration_checks [OF h1 p1, where stored = "[0]" and distance = euclid and d = "[0.9]" and pass = "''12345''"]
      C7_registration_checks [OF h2 p2, where stored = "[0]" and distance = euclid and d = "[0.9]" and pass = "''123456''"]
      C7_registration_checks [OF h1 p1, where stored = "[0]" and distance = euclid and d = "[0.9]" and pass = "''123456''"]
      h0 p1 d1 d9 pat
    by (simp add: trim_alice trim_bob bobLoggedIn_def firstRun_def)
qed

text \<open>
  The claim as stated fails: the user name \<^verbatim>\<open>a b\<close> does not match the pattern,
  and with a short password the error is \<open>WeakPassword\<close>, since the password is
  checked before the pattern.
\<close>

theorem C7_counterexample:
  "\<not> username_pattern (trim ''a b'')
   \<and> register (firstRun\<lparr>tempFaceDescriptor := Some [0]\<rparr>) ''a b'' ''123'' = Inl WeakPassword"
  by (simp add: register_def trim_def is_js_space_def username_pattern_def is_word_char_def
      firstRun_def Let_def)

subsection \<open>C8: login\<close>

text \<open>
  Claim C8, amended. In every state and for every input, \<^verbatim>\<open>login\<close> succeeds if
  and only if the user name, trimmed, is registered with a password that is not empty
  and equal to the supplied password, trimmed; it then sets the current user to the
  trimmed name and changes nothing else, and otherwise it fails with
  \<open>InvalidCredentials\<close> and returns no new state.
\<close>

theorem C8_login_after_trimming:
  "login st rawUser rawPass =
     (if users st (trim rawUser) = Some (trim rawPass) \<and> trim rawPass \<noteq> []
      then Inr (st\<lparr>user := Some (trim rawUser)\<rparr>)
      else Inl InvalidCredentials)"
  by (cases "users st (trim rawUser)") (auto simp: login_def Let_def truthy_def getProp_def)

text \<open>
  The theorem for \<^verbatim>\<open>bob\<close>: the right password, the same with blanks around both
  fields, a wrong one, an unknown user, and a name that \<^verbatim>\<open>Object.prototype\<close> has.
\<close>

theorem C8_witness:
  "login (logoutUser bobLoggedIn) ''bob'' ''secret1'' = Inr bobLoggedIn
   \<and> login (logoutUser bobLoggedIn) '' bob'' ''  secret1 '' = Inr bobLoggedIn
   \<and> login (logoutUser bobLoggedIn) ''bob'' ''secret2'' = Inl InvalidCredentials
   \<and> login (logoutUser bobLoggedIn) ''eve'' ''secret1'' = Inl InvalidCredentials
   \<and> login (logoutUser bobLoggedIn) ''constructor'' ''secret1'' = Inl InvalidCredentials"
proof -
  have t: "trim ''secret2'' = ''secret2''" "trim ''eve'' = ''eve''" "trim '' bob'' = ''bob''"
    "trim ''  secret1 '' = ''secret1''"
    by (simp_all add: trim_def is_js_space_def)
  show ?thesis
    using C8_login_after_trimming [of "logoutUser bobLoggedIn" "''bob''" "''secret1''"]
      C8_login_after_trimming [of "logoutUser bobLoggedIn" "'' bob''" "''  secret1 ''"]
      C8_login_after_trimming [of "logoutUser bobLoggedIn" "''bob''" "''secret2''"]
      C8_login_after_trimming [of "logoutUser bobLoggedIn" "''eve''" "''secret1''"]
      C8_login_after_trimming [of "logoutUser bobLoggedIn" "''constructor''" "''secret1''"]
    by (simp add: trim_secret1 trim_bob trim_constructor t logoutUser_def bobLoggedIn_def)
qed

text \<open>
  The claim as stated fails: the password \<^verbatim>\<open>"secret1 "\<close>, with a space at its end,
  is not the stored \<^verbatim>\<open>"secret1"\<close>, and logs \<^verbatim>\<open>bob\<close> in.
\<close>

theorem C8_counterexample:
  "users (logoutUser bobLoggedIn) ''bob'' = Some ''secret1''
   \<and> ''secret1 '' \<noteq> ''secret1''
   \<and> login (logoutUser bobLoggedIn) ''bob'' ''secret1 '' = Inr bobLoggedIn"
  by (simp add: login_def trim_def is_js_space_def truthy_def getProp_def logoutUser_def
      bobLoggedIn_def Let_def)

subsection \<open>C9: addOption\<close>

text \<open>
  Claim C9, amended. \<open>addOption\<close> trims its input. For a name that
  \<^verbatim>\<open>Object.prototype\<close> does not have: an empty name is ignored without a report;
  a name already in the option list fails with \<open>DuplicateOption\<close>; in both cases the
  state is unchanged. Otherwise the name is appended to the end of the option list and
  gets a Tally entry: zero when it had none, and the entry it already had when the
  Tally held one. In a state whose Tally keys are exactly the options, the entry of an
  added name is therefore zero.
\<close>

theorem C9_addOption:
  assumes "trim raw \<notin> set objectPrototypeNames"
  shows "addOption st raw =
     (if trim raw = [] then (Ignored, st)
      else if trim raw \<in> set (options st) then (Failed DuplicateOption, st)
      else (Done,
            st\<lparr>options := options st @ [trim raw],
               votes := (votes st)(trim raw \<mapsto>
                          (case votes st (trim raw) of None \<Rightarrow> Count 0 | Some v \<Rightarrow> v))\<rparr>))
   \<and> (tallyKeysAreOptions st \<and> fst (addOption st raw) = Done \<longrightarrow>
        votes (snd (addOption st raw)) (trim raw) = Some (Count 0))"
proof -
  have keep: "keepOrZero (getProp (votes st) (trim raw)) =
      (case votes st (trim raw) of None \<Rightarrow> Count 0 | Some v \<Rightarrow> v)"
    using assms by (simp add: keepOrZero_def getProp_def split: option.splits tally.splits)
  have eq: "addOption st raw =
     (if trim raw = [] then (Ignored, st)
      else if trim raw \<in> set (options st) then (Failed DuplicateOption, st)
      else (Done,
            st\<lparr>options := options st @ [trim raw],
               votes := (votes st)(trim raw \<mapsto>
                          (case votes st (trim raw) of None \<Rightarrow> Count 0 | Some v \<Rightarrow> v))\<rparr>))"
    using assms by (simp add: addOption_def Let_def keep setProp_plain)
  have fresh: "tallyKeysAreOptions st \<and> fst (addOption st raw) = Done \<longrightarrow>
        votes (snd (addOption st raw)) (trim raw) = Some (Count 0)"
  proof
    assume a: "tallyKeysAreOptions st \<and> fst (addOption st raw) = Done"
    then have "trim raw \<notin> set (options st)"
      by (auto simp: eq split: if_splits)
    with a have "votes st (trim raw) = None"
      by (auto simp: tallyKeysAreOptions_def)
    with a show "votes (snd (addOption st raw)) (trim raw) = Some (Count 0)"
      by (auto simp: eq split: if_splits)
  qed
  from eq fresh show ?thesis by blast
qed

text \<open>
  The theorem on the first-run state: a new name surrounded by blanks, a listed name,
  and a blank input.
\<close>

theorem C9_witness:
  "trim ''  Option D '' \<notin> set objectPrototypeNames
   \<and> tallyKeysAreOptions firstRun
   \<and> addOption firstRun ''  Option D '' =
       (Done, firstRun\<lparr>options := [''Option A'', ''Option B'', ''Option C'', ''Option D''],
                       votes := (votes firstRun)(''Option D'' \<mapsto> Count 0)\<rparr>)
   \<and> addOption firstRun ''Option A'' = (Failed DuplicateOption, firstRun)
   \<and> addOption firstRun ''   '' = (Ignored, firstRun)"
proof -
  have h: "tallyKeysAreOptions firstRun"
    by (auto simp: tallyKeysAreOptions_def firstRun_def)
  have t: "trim ''  Option D '' = ''Option D''" "trim ''Option A'' = ''Option A''" "trim ''   '' = []"
    by (simp_all add: trim_def is_js_space_def)
  have p: "trim ''  Option D '' \<notin> set objectPrototypeNames"
    "trim ''Option A'' \<notin> set objectPrototypeNames" "trim ''   '' \<notin> set objectPrototypeNames"
    by (simp_all add: t objectPrototypeNames_def)
  show ?thesis
    using h p(1) C9_addOption [OF p(1), of firstRun] C9_addOption [OF p(2), of firstRun]
      C9_addOption [OF p(3), of firstRun]
    by (simp add: t firstRun_def)
qed

text \<open>
  The claim as stated fails: after an import whose Tally has a count for
  \<^verbatim>\<open>X\<close> and whose option list has not, adding \<^verbatim>\<open>X\<close> keeps the count 5.
\<close>

theorem C9_counterexample:
  "options staleImported = [''A'']
   \<and> fst (addOption staleImported ''X'') = Done
   \<and> votes (snd (addOption staleImported ''X'')) ''X'' = Some (Count 5)"
  by (simp add: staleImported_def addOption_def trim_X replaceAll_def staleTallyDoc_def
      keepOrZero_def getProp_def setProp_def toDouble_exact Let_def)

subsection \<open>C10: finalizeVote\<close>

text \<open>
  \<^verbatim>\<open>finalizeVote\<close> looks at neither \<^verbatim>\<open>votingOpen\<close>, nor the option list, nor
  an existing record. With the face check on, another handler can run between
  \<^verbatim>\<open>vote\<close> and the callback: a vote for \<^verbatim>\<open>Option A\<close>, then the removal of
  that option, then the callback leave a Tally entry for an option that is no longer
  listed.
\<close>

lemma vote_counted_after_removal:
  "votes (app (run euclid (boot bobLoggedIn)
       [Vote ''Option A'', RemoveOption ''Option A'', FaceDetected 0 [0]])) ''Option A'' = Some (Count 1)
   \<and> options (app (run euclid (boot bobLoggedIn)
       [Vote ''Option A'', RemoveOption ''Option A'', FaceDetected 0 [0]])) = [''Option B'', ''Option C'']"
  by (simp add: run_def boot_def bobLoggedIn_def firstRun_def builtin_settings_def vote_def
      loggedIn_def truthy_def hasUserVoted_def userKey_def finalizeVote_def getProp_def setProp_def
      keepOrZero_def addOne_def toDouble_1 without_def removeOption_def objectPrototypeNames_def
      Let_def)

text \<open>
  Claim C10 says that \<^verbatim>\<open>finalizeVote\<close> adds one to \<^verbatim>\<open>votes[option]\<close> in every
  state and for every option string. Three inputs where the script does not. For
  the option \<^verbatim>\<open>__proto__\<close>, added by the admin, the Tally is left as it was, with
  no entry for the option, while the record \<^verbatim>\<open>userVotes["bob"]\<close> is written. For
  the option \<^verbatim>\<open>constructor\<close>, whose Tally entry the add-option handler has set to
  the inherited function, the entry stays a value that is no number. At the count
  \<open>2^53\<close>, which an import can set, the sum \<open>2^53 + 1\<close> is rounded to the double
  \<open>2^53\<close> and the count does not change.
\<close>

theorem C10_increment_lost:
  "options protoAdded = [''Option A'', ''Option B'', ''Option C'', ''__proto__'']
   \<and> votes (finalizeVote protoAdded ''__proto__'') = votes protoAdded
   \<and> votes protoAdded ''__proto__'' = None
   \<and> user protoAdded = Some ''bob''
   \<and> userVotes (finalizeVote protoAdded ''__proto__'') = [''bob'' \<mapsto> ''__proto__'']
   \<and> votes constructorAdded ''constructor'' = Some NonNumber
   \<and> votes (finalizeVote constructorAdded ''constructor'') ''constructor'' = Some NonNumber
   \<and> votes hugeImported ''Option A'' = Some (Count 9007199254740992)
   \<and> votes (finalizeVote hugeImported ''Option A'') ''Option A'' = Some (Count 9007199254740992)"
  by (simp add: protoAdded_def constructorAdded_def hugeImported_def hugeTallyDoc_def replaceAll_def
      addOption_def trim_proto trim_constructor bobLoggedIn_def firstRun_def builtin_settings_def
      finalizeVote_def getProp_def setProp_def keepOrZero_def addOne_def toDouble_limit
      toDouble_exact userKey_def objectPrototypeNames_def Let_def)

end
